theory Spec2Isabelle
  imports Main
begin

section \<open>JavaScript numbers\<close>

text \<open>
  The invoice handlers compute \<^verbatim>\<open>amount * 100\<close> on JavaScript numbers, which are IEEE 754
  binary64 values. A finite number is kept as its exact value \<open>m * 2 ^ e\<close> in normal form
  (\<open>m\<close> odd, or \<open>m = 0\<close> and \<open>e = 0\<close>); the sign of zero is not kept (no handler
  distinguishes \<open>-0\<close> from \<open>+0\<close>: both fail \<^verbatim>\<open>> 0\<close>). Every operation rounds its exact
  result to the nearest binary64 value, ties to even, as ECMAScript prescribes.
\<close>

datatype number = NaN | PosInfinity | NegInfinity | Finite int int

fun bitlen :: "nat \<Rightarrow> nat" where
  "bitlen n = (if n = 0 then 0 else Suc (bitlen (n div 2)))"

declare bitlen.simps [simp del]

function normalise :: "nat \<Rightarrow> int \<Rightarrow> nat \<times> int" where
  "normalise m e =
     (if m = 0 then (0, 0)
      else if even m then normalise (m div 2) (e + 1)
      else (m, e))"
  by pat_completeness auto
termination
  by (relation "measure (\<lambda>(m, e). m)") auto

declare normalise.simps [simp del]

definition round_half_even :: "nat \<Rightarrow> nat \<Rightarrow> nat" where
  \<comment> \<open>the integer nearest to \<open>num / den\<close>, the even one of two equally near\<close>
  "round_half_even num den =
     (let quo = num div den; rem = num mod den
      in if 2 * rem < den then quo
         else if den < 2 * rem then quo + 1
         else if even quo then quo else quo + 1)"

definition floor_log2 :: "nat \<Rightarrow> nat \<Rightarrow> int" where
  \<comment> \<open>for \<open>0 < n\<close> and \<open>0 < d\<close>: the \<open>E\<close> with \<open>2 ^ E \<le> n / d < 2 ^ (E + 1)\<close>\<close>
  "floor_log2 n d =
     (let E0 = int (bitlen n) - int (bitlen d);
          ge = (if 0 \<le> E0 then d * 2 ^ nat E0 \<le> n else d \<le> n * 2 ^ nat (- E0))
      in if ge then E0 else E0 - 1)"

definition round_binary64 :: "bool \<Rightarrow> nat \<Rightarrow> nat \<Rightarrow> int \<Rightarrow> number" where
  \<comment> \<open>the binary64 value nearest to \<open>\<plusminus> (n / d) * 2 ^ s\<close> (\<open>neg\<close> is the sign, \<open>0 < d\<close>):
      53 significant bits, least exponent \<open>-1074\<close>, overflow to an infinity\<close>
  "round_binary64 neg n d s =
     (if n = 0 then Finite 0 0
      else
        let E = floor_log2 n d + s;
            q = max (E - 52) (- 1074);
            t = s - q;
            M = (if 0 \<le> t then round_half_even (n * 2 ^ nat t) d
                 else round_half_even n (d * 2 ^ nat (- t)))
        in if 971 < q \<or> (q = 971 \<and> 2 ^ 53 \<le> M)
           then (if neg then NegInfinity else PosInfinity)
           else (case normalise M q of
                   (m, e) \<Rightarrow> Finite (if neg then - int m else int m) e))"

definition number_of_int :: "int \<Rightarrow> number" where
  \<comment> \<open>the Number value of an integer (a numeric literal such as \<^verbatim>\<open>100\<close>)\<close>
  "number_of_int i = round_binary64 (i < 0) (nat \<bar>i\<bar>) 1 0"

fun number_mul :: "number \<Rightarrow> number \<Rightarrow> number" where
  \<comment> \<open>\<^verbatim>\<open>x * y\<close> (Number::multiply)\<close>
  "number_mul NaN _ = NaN"
| "number_mul _ NaN = NaN"
| "number_mul (Finite m1 e1) (Finite m2 e2) =
     round_binary64 ((m1 < 0) \<noteq> (m2 < 0)) (nat \<bar>m1 * m2\<bar>) 1 (e1 + e2)"
| "number_mul (Finite m e) PosInfinity =
     (if m = 0 then NaN else if m < 0 then NegInfinity else PosInfinity)"
| "number_mul (Finite m e) NegInfinity =
     (if m = 0 then NaN else if m < 0 then PosInfinity else NegInfinity)"
| "number_mul PosInfinity (Finite m e) =
     (if m = 0 then NaN else if m < 0 then NegInfinity else PosInfinity)"
| "number_mul NegInfinity (Finite m e) =
     (if m = 0 then NaN else if m < 0 then PosInfinity else NegInfinity)"
| "number_mul PosInfinity PosInfinity = PosInfinity"
| "number_mul PosInfinity NegInfinity = NegInfinity"
| "number_mul NegInfinity PosInfinity = NegInfinity"
| "number_mul NegInfinity NegInfinity = PosInfinity"

fun number_gt :: "number \<Rightarrow> number \<Rightarrow> bool" where
  \<comment> \<open>\<^verbatim>\<open>x > y\<close>: false as soon as one side is NaN\<close>
  "number_gt NaN _ = False"
| "number_gt _ NaN = False"
| "number_gt PosInfinity y = (y \<noteq> PosInfinity)"
| "number_gt NegInfinity _ = False"
| "number_gt (Finite m e) PosInfinity = False"
| "number_gt (Finite m e) NegInfinity = True"
| "number_gt (Finite m1 e1) (Finite m2 e2) =
     (let e = min e1 e2 in m2 * 2 ^ nat (e2 - e) < m1 * 2 ^ nat (e1 - e))"

definition integer_value :: "number \<Rightarrow> int option" where
  \<comment> \<open>the value of a number that is a whole number; \<open>None\<close> for every other number\<close>
  "integer_value x =
     (case x of
        Finite m e \<Rightarrow>
          if 0 \<le> e then Some (m * 2 ^ nat e)
          else if m mod 2 ^ nat (- e) = 0 then Some (m div 2 ^ nat (- e))
          else None
      | _ \<Rightarrow> None)"

subsection \<open>\<^verbatim>\<open>Number(string)\<close>\<close>

text \<open>
  ECMAScript's StringToNumber: white space is trimmed; the empty string is \<open>0\<close>; then an
  optionally signed \<^verbatim>\<open>Infinity\<close> or decimal literal (digits, optional fraction, optional
  exponent), or an unsigned \<^verbatim>\<open>0x\<close>, \<^verbatim>\<open>0o\<close>, \<^verbatim>\<open>0b\<close> literal; anything else is NaN. Characters
  are the 8-bit \<^typ>\<open>char\<close>, so of the white-space code points only those below 256 occur.
\<close>

definition is_white_space :: "char \<Rightarrow> bool" where
  "is_white_space c = ((of_char c :: nat) \<in> {9, 10, 11, 12, 13, 32, 160})"

definition trim :: "string \<Rightarrow> string" where
  "trim s = rev (dropWhile is_white_space (rev (dropWhile is_white_space s)))"

definition digit_of :: "nat \<Rightarrow> char \<Rightarrow> nat option" where
  \<comment> \<open>the value of a digit character in the given radix\<close>
  "digit_of radix c =
     (let k = (of_char c :: nat);
          v = (if 48 \<le> k \<and> k \<le> 57 then Some (k - 48)
               else if 97 \<le> k \<and> k \<le> 102 then Some (k - 87)
               else if 65 \<le> k \<and> k \<le> 70 then Some (k - 55)
               else None)
      in case v of None \<Rightarrow> None | Some d \<Rightarrow> if d < radix then Some d else None)"

definition is_digit :: "char \<Rightarrow> bool" where
  "is_digit c = (digit_of 10 c \<noteq> None)"

fun digits_value :: "nat \<Rightarrow> nat \<Rightarrow> string \<Rightarrow> nat option" where
  \<comment> \<open>the value of a digit string, most significant digit first; \<open>None\<close> at a non-digit\<close>
  "digits_value radix acc [] = Some acc"
| "digits_value radix acc (c # cs) =
     (case digit_of radix c of
        None \<Rightarrow> None
      | Some d \<Rightarrow> digits_value radix (acc * radix + d) cs)"

definition nonempty_digits :: "nat \<Rightarrow> string \<Rightarrow> nat option" where
  "nonempty_digits radix s = (if s = [] then None else digits_value radix 0 s)"

definition exponent_part :: "string \<Rightarrow> int option" where
  \<comment> \<open>nothing, or \<^verbatim>\<open>e\<close>/\<^verbatim>\<open>E\<close>, an optional sign and at least one digit\<close>
  "exponent_part s =
     (case s of
        [] \<Rightarrow> Some 0
      | c # r \<Rightarrow>
          if c = CHR ''e'' \<or> c = CHR ''E'' then
            (case r of
               [] \<Rightarrow> None
             | d # r' \<Rightarrow>
                 if d = CHR ''-'' then map_option (\<lambda>n. - int n) (nonempty_digits 10 r')
                 else if d = CHR ''+'' then map_option int (nonempty_digits 10 r')
                 else map_option int (nonempty_digits 10 r))
          else None)"

definition scaled_decimal :: "bool \<Rightarrow> nat \<Rightarrow> int \<Rightarrow> number" where
  \<comment> \<open>the Number value of \<open>\<plusminus> digits * 10 ^ k\<close>\<close>
  "scaled_decimal neg digits k =
     (if 0 \<le> k then round_binary64 neg (digits * 10 ^ nat k) 1 0
      else round_binary64 neg digits (10 ^ nat (- k)) 0)"

definition decimal_literal :: "bool \<Rightarrow> string \<Rightarrow> number" where
  \<comment> \<open>StrUnsignedDecimalLiteral, with the sign already read\<close>
  "decimal_literal neg s =
     (if s = ''Infinity'' then (if neg then NegInfinity else PosInfinity)
      else
        let ip = takeWhile is_digit s; rest = dropWhile is_digit s in
        case rest of
          [] \<Rightarrow>
            (case nonempty_digits 10 ip of
               None \<Rightarrow> NaN
             | Some n \<Rightarrow> scaled_decimal neg n 0)
        | c # r \<Rightarrow>
            if c = CHR ''.'' then
              (let fp = takeWhile is_digit r; rest' = dropWhile is_digit r in
               case (nonempty_digits 10 (ip @ fp), exponent_part rest') of
                 (Some n, Some x) \<Rightarrow> scaled_decimal neg n (x - int (length fp))
               | _ \<Rightarrow> NaN)
            else
              (case (nonempty_digits 10 ip, exponent_part rest) of
                 (Some n, Some x) \<Rightarrow> scaled_decimal neg n x
               | _ \<Rightarrow> NaN))"

definition radix_literal :: "nat \<Rightarrow> string \<Rightarrow> number" where
  "radix_literal radix s =
     (case nonempty_digits radix s of
        None \<Rightarrow> NaN
      | Some n \<Rightarrow> round_binary64 False n 1 0)"

definition StringToNumber :: "string \<Rightarrow> number" where
  "StringToNumber str =
     (let s = trim str in
      case s of
        [] \<Rightarrow> Finite 0 0
      | c # r \<Rightarrow>
          if c = CHR ''+'' then decimal_literal False r
          else if c = CHR ''-'' then decimal_literal True r
          else if take 2 s = ''0x'' \<or> take 2 s = ''0X'' then radix_literal 16 (drop 2 s)
          else if take 2 s = ''0o'' \<or> take 2 s = ''0O'' then radix_literal 8 (drop 2 s)
          else if take 2 s = ''0b'' \<or> take 2 s = ''0B'' then radix_literal 2 (drop 2 s)
          else decimal_literal False s)"

section \<open>The form and the values a handler gives back\<close>

text \<open>
  \<^verbatim>\<open>FormData.get\<close> gives the first entry of a name: a string, a file, or \<^verbatim>\<open>null\<close> (here
  \<open>None\<close>) when there is none.
\<close>

datatype entry = Text string | File

type_synonym FormData = "(string \<times> entry) list"

definition formData_get :: "FormData \<Rightarrow> string \<Rightarrow> entry option" where
  "formData_get formData key = map_of formData key"

text \<open>
  \<^verbatim>\<open>StateUser\<close> and \<^verbatim>\<open>State\<close>: both fields are optional. The field errors are kept as the
  list of the object's properties, in insertion order.
\<close>

record form_state =
  errors :: "(string \<times> string list) list option"
  message :: "string option"

section \<open>Completions, exceptions and the world\<close>

text \<open>
  What can be thrown: \<^verbatim>\<open>new Error(msg)\<close>; the sign-in provider's \<^verbatim>\<open>AuthError\<close> with its
  \<^verbatim>\<open>type\<close>; the error by which \<^verbatim>\<open>redirect(path)\<close> leaves the handler; a failure of the
  record store.
\<close>

datatype exn =
    Error string
  | AuthError string
  | NextRedirect string
  | DatabaseError

text \<open>
  A statement completes normally (with the value of an awaited expression), by
  \<^verbatim>\<open>return\<close>, or by \<^verbatim>\<open>throw\<close>. A handler whose body completes normally returns
  \<^verbatim>\<open>undefined\<close>.
\<close>

datatype ('a, 'r) completion = Normal 'a | Return 'r | Throw exn

record user_row =
  row_id :: string
  row_name :: string
  row_email :: string
  row_password :: string

record invoice_row =
  inv_id :: string
  inv_customer_id :: string
  inv_amount :: number
  inv_status :: string
  inv_date :: string

text \<open>The statements the handlers send to the store, with their parameters.\<close>

datatype statement =
    SELECT_COUNT_users string
  | INSERT_users string string string
  | SELECT_users string
  | UPDATE_users string string string string
  | DELETE_users string
  | INSERT_invoices string number string string
  | UPDATE_invoices string number string string
  | DELETE_invoices string

text \<open>
  The world a handler runs in: the two tables, for each coming store call whether it is
  going to fail (\<open>True\<close>; none planned means success), the statements sent so far, and the
  paths given to \<^verbatim>\<open>revalidatePath\<close> so far.
\<close>

record world =
  users :: "user_row list"
  invoices :: "invoice_row list"
  faults :: "bool list"
  issued :: "statement list"
  revalidated :: "string list"

text \<open>
  What the handlers take from outside the sources: the pattern of zod's \<^verbatim>\<open>email()\<close>,
  \<^verbatim>\<open>bcrypt.hash\<close> (password and cost), the identifier the store gives an inserted row,
  and \<^verbatim>\<open>new Date().toISOString()\<close>.
\<close>

record env =
  email_pattern :: "string \<Rightarrow> bool"
  bcrypt_hash :: "string \<Rightarrow> nat \<Rightarrow> string"
  generated_id :: "world \<Rightarrow> string"
  now_ISO :: string

type_synonym ('a, 'r) action = "world \<Rightarrow> ('a, 'r) completion \<times> world"

definition pure :: "'a \<Rightarrow> ('a, 'r) action" where
  "pure v w = (Normal v, w)"

definition return_value :: "'r \<Rightarrow> ('a, 'r) action" where
  "return_value r w = (Return r, w)"

definition throw :: "exn \<Rightarrow> ('a, 'r) action" where
  "throw e w = (Throw e, w)"

definition andThen :: "('a, 'r) action \<Rightarrow> ('a \<Rightarrow> ('b, 'r) action) \<Rightarrow> ('b, 'r) action" where
  "andThen first rest w =
     (case first w of
        (Normal v, w') \<Rightarrow> rest v w'
      | (Return r, w') \<Rightarrow> (Return r, w')
      | (Throw e, w') \<Rightarrow> (Throw e, w'))"

definition try_catch :: "('a, 'r) action \<Rightarrow> (exn \<Rightarrow> ('a, 'r) action) \<Rightarrow> ('a, 'r) action" where
  "try_catch block handler w =
     (case block w of
        (Throw e, w') \<Rightarrow> handler e w'
      | (Normal v, w') \<Rightarrow> (Normal v, w')
      | (Return r, w') \<Rightarrow> (Return r, w'))"

definition try_catch_finally ::
  "('a, 'r) action \<Rightarrow> (exn \<Rightarrow> ('a, 'r) action) \<Rightarrow> (unit, 'r) action \<Rightarrow> ('a, 'r) action" where
  \<comment> \<open>the \<^verbatim>\<open>finally\<close> block always runs; when it completes abruptly, its completion
      replaces that of the \<^verbatim>\<open>try\<close>/\<^verbatim>\<open>catch\<close>\<close>
  "try_catch_finally block handler finalizer w =
     (case try_catch block handler w of
        (c, w') \<Rightarrow>
          (case finalizer w' of
             (Normal _, w'') \<Rightarrow> (c, w'')
           | (Return r, w'') \<Rightarrow> (Return r, w'')
           | (Throw e, w'') \<Rightarrow> (Throw e, w'')))"

definition invoke :: "('a, 'a) action \<Rightarrow> ('a, 'r) action" where
  \<comment> \<open>\<^verbatim>\<open>await f(...)\<close>: what the callee returns is the value of the call\<close>
  "invoke callee w =
     (case callee w of
        (Normal v, w') \<Rightarrow> (Normal v, w')
      | (Return v, w') \<Rightarrow> (Normal v, w')
      | (Throw e, w') \<Rightarrow> (Throw e, w'))"

definition revalidatePath :: "string \<Rightarrow> (unit, 'r) action" where
  "revalidatePath path w = (Normal (), w\<lparr>revalidated := revalidated w @ [path]\<rparr>)"

definition redirect :: "string \<Rightarrow> ('a, 'r) action" where
  \<comment> \<open>\<^verbatim>\<open>redirect\<close> never returns: it throws the error the framework turns into the redirect\<close>
  "redirect path = throw (NextRedirect path)"

subsection \<open>The record store\<close>

definition sql :: "statement \<Rightarrow> (world \<Rightarrow> 'a \<times> world) \<Rightarrow> ('a, 'r) action" where
  \<comment> \<open>one awaited \<^verbatim>\<open>sql\<close> call: the statement is sent; the store fails, or runs it\<close>
  "sql stmt run w =
     (let w1 = w\<lparr>issued := issued w @ [stmt]\<rparr> in
      case faults w1 of
        [] \<Rightarrow> (case run w1 of (v, w2) \<Rightarrow> (Normal v, w2))
      | failing # later \<Rightarrow>
          if failing then (Throw DatabaseError, w1\<lparr>faults := later\<rparr>)
          else (case run (w1\<lparr>faults := later\<rparr>) of (v, w2) \<Rightarrow> (Normal v, w2)))"

definition select_count_users :: "string \<Rightarrow> (nat, 'r) action" where
  \<comment> \<open>\<^verbatim>\<open>SELECT COUNT(*) AS count FROM users WHERE email = ${email}\<close>; the value is
      \<^verbatim>\<open>rows[0].count\<close> of the one row of the result\<close>
  "select_count_users email =
     sql (SELECT_COUNT_users email)
       (\<lambda>w. (length (filter (\<lambda>u. row_email u = email) (users w)), w))"

definition insert_user :: "env \<Rightarrow> string \<Rightarrow> string \<Rightarrow> string \<Rightarrow> (user_row list, 'r) action" where
  \<comment> \<open>\<^verbatim>\<open>INSERT INTO users (name, email, password) VALUES (...) RETURNING id, name, email\<close>\<close>
  "insert_user env name' email' hashed =
     sql (INSERT_users name' email' hashed)
       (\<lambda>w. let row = \<lparr>row_id = generated_id env w, row_name = name', row_email = email',
                          row_password = hashed\<rparr>
            in ([row], w\<lparr>users := users w @ [row]\<rparr>))"

definition select_user :: "string \<Rightarrow> (user_row list, 'r) action" where
  \<comment> \<open>\<^verbatim>\<open>SELECT * FROM users WHERE id = ${id}\<close>\<close>
  "select_user id' =
     sql (SELECT_users id') (\<lambda>w. (filter (\<lambda>u. row_id u = id') (users w), w))"

definition update_user :: "string \<Rightarrow> string \<Rightarrow> string \<Rightarrow> string \<Rightarrow> (unit, 'r) action" where
  \<comment> \<open>\<^verbatim>\<open>UPDATE users SET name = .., email = .., password = .. WHERE id = ${id}\<close>\<close>
  "update_user name' email' hashed id' =
     sql (UPDATE_users name' email' hashed id')
       (\<lambda>w. ((), w\<lparr>users :=
                 map (\<lambda>u. if row_id u = id'
                           then u\<lparr>row_name := name', row_email := email', row_password := hashed\<rparr>
                           else u) (users w)\<rparr>))"

definition delete_user :: "string \<Rightarrow> (unit, 'r) action" where
  \<comment> \<open>\<^verbatim>\<open>DELETE FROM users WHERE id = ${id}\<close>\<close>
  "delete_user id' =
     sql (DELETE_users id') (\<lambda>w. ((), w\<lparr>users := filter (\<lambda>u. row_id u \<noteq> id') (users w)\<rparr>))"

definition insert_invoice ::
  "env \<Rightarrow> string \<Rightarrow> number \<Rightarrow> string \<Rightarrow> string \<Rightarrow> (unit, 'r) action" where
  \<comment> \<open>\<^verbatim>\<open>INSERT INTO invoices (customer_id, amount, status, date) VALUES (...)\<close>\<close>
  "insert_invoice env customerId amountInCents status' date' =
     sql (INSERT_invoices customerId amountInCents status' date')
       (\<lambda>w. ((), w\<lparr>invoices := invoices w @
                 [\<lparr>inv_id = generated_id env w, inv_customer_id = customerId,
                   inv_amount = amountInCents, inv_status = status', inv_date = date'\<rparr>]\<rparr>))"

definition update_invoice :: "string \<Rightarrow> number \<Rightarrow> string \<Rightarrow> string \<Rightarrow> (unit, 'r) action" where
  \<comment> \<open>\<^verbatim>\<open>UPDATE invoices SET customer_id = .., amount = .., status = .. WHERE id = ${id}\<close>\<close>
  "update_invoice customerId amountInCents status' id' =
     sql (UPDATE_invoices customerId amountInCents status' id')
       (\<lambda>w. ((), w\<lparr>invoices :=
                 map (\<lambda>i. if inv_id i = id'
                           then i\<lparr>inv_customer_id := customerId, inv_amount := amountInCents,
                                  inv_status := status'\<rparr>
                           else i) (invoices w)\<rparr>))"

definition delete_invoice :: "string \<Rightarrow> (unit, 'r) action" where
  \<comment> \<open>\<^verbatim>\<open>DELETE FROM invoices WHERE id = ${id}\<close>\<close>
  "delete_invoice id' =
     sql (DELETE_invoices id')
       (\<lambda>w. ((), w\<lparr>invoices := filter (\<lambda>i. inv_id i \<noteq> id') (invoices w)\<rparr>))"

section \<open>The schemas\<close>

text \<open>
  The part of zod (version 3) the schemas use. Parsing a field gives its value or the
  messages of its issues. A value of the wrong type gives one issue and the checks are not
  run; otherwise every check is run and each failed one adds its message.
\<close>

datatype 'a parsed = Valid 'a | Invalid "string list"

datatype string_check = Min nat string | Email string

record ZodString =
  checks :: "string_check list"
  invalid_type_error :: "string option"

definition z_string :: ZodString where
  "z_string = \<lparr>checks = [], invalid_type_error = None\<rparr>"

definition z_string_with :: "string \<Rightarrow> ZodString" where
  \<comment> \<open>\<^verbatim>\<open>z.string({ invalid_type_error: msg })\<close>\<close>
  "z_string_with msg = \<lparr>checks = [], invalid_type_error = Some msg\<rparr>"

definition z_min :: "nat \<Rightarrow> string \<Rightarrow> ZodString \<Rightarrow> ZodString" where
  "z_min n msg schema = schema\<lparr>checks := checks schema @ [Min n msg]\<rparr>"

definition z_nonempty :: "string \<Rightarrow> ZodString \<Rightarrow> ZodString" where
  \<comment> \<open>zod defines \<^verbatim>\<open>nonempty(msg)\<close> as \<^verbatim>\<open>min(1, msg)\<close>\<close>
  "z_nonempty msg schema = z_min 1 msg schema"

definition z_email :: "string \<Rightarrow> ZodString \<Rightarrow> ZodString" where
  "z_email msg schema = schema\<lparr>checks := checks schema @ [Email msg]\<rparr>"

definition received_type :: "entry option \<Rightarrow> string" where
  "received_type input =
     (case input of None \<Rightarrow> ''null'' | Some (Text _) \<Rightarrow> ''string'' | Some File \<Rightarrow> ''object'')"

fun check_string :: "env \<Rightarrow> string \<Rightarrow> string_check \<Rightarrow> string list" where
  "check_string env s (Min n msg) = (if length s < n then [msg] else [])"
| "check_string env s (Email msg) = (if email_pattern env s then [] else [msg])"

definition ZodString_parse :: "env \<Rightarrow> ZodString \<Rightarrow> entry option \<Rightarrow> string parsed" where
  "ZodString_parse env schema input =
     (case input of
        Some (Text s) \<Rightarrow>
          (case concat (map (check_string env s) (checks schema)) of
             [] \<Rightarrow> Valid s
           | msg # msgs \<Rightarrow> Invalid (msg # msgs))
      | _ \<Rightarrow>
          Invalid [case invalid_type_error schema of
                     Some msg \<Rightarrow> msg
                   | None \<Rightarrow> ''Expected string, received '' @ received_type input])"

datatype number_check = Gt number string

record ZodNumber =
  coerce :: bool
  number_checks :: "number_check list"

definition z_coerce_number :: ZodNumber where
  "z_coerce_number = \<lparr>coerce = True, number_checks = []\<rparr>"

definition z_gt :: "number \<Rightarrow> string \<Rightarrow> ZodNumber \<Rightarrow> ZodNumber" where
  "z_gt bound msg schema = schema\<lparr>number_checks := number_checks schema @ [Gt bound msg]\<rparr>"

definition Number :: "entry option \<Rightarrow> number" where
  \<comment> \<open>\<^verbatim>\<open>Number(input)\<close>: \<^verbatim>\<open>null\<close> is 0, a string is read, an object that is no number is NaN\<close>
  "Number input =
     (case input of
        None \<Rightarrow> Finite 0 0
      | Some (Text s) \<Rightarrow> StringToNumber s
      | Some File \<Rightarrow> NaN)"

fun check_number :: "number \<Rightarrow> number_check \<Rightarrow> string list" where
  "check_number x (Gt bound msg) = (if number_gt x bound then [] else [msg])"

definition ZodNumber_parse :: "ZodNumber \<Rightarrow> entry option \<Rightarrow> number parsed" where
  "ZodNumber_parse schema input =
     (if coerce schema then
        (let x = Number input in
         if x = NaN then Invalid [''Expected number, received nan'']
         else
           (case concat (map (check_number x) (number_checks schema)) of
              [] \<Rightarrow> Valid x
            | msg # msgs \<Rightarrow> Invalid (msg # msgs)))
      else Invalid [''Expected number, received '' @ received_type input])"

record ZodEnum =
  enum_values :: "string list"
  enum_invalid_type_error :: "string option"

definition z_enum :: "string list \<Rightarrow> string \<Rightarrow> ZodEnum" where
  \<comment> \<open>\<^verbatim>\<open>z.enum(values, { invalid_type_error: msg })\<close>\<close>
  "z_enum values msg = \<lparr>enum_values = values, enum_invalid_type_error = Some msg\<rparr>"

definition quoted :: "string \<Rightarrow> string" where
  "quoted s = [CHR 0x27] @ s @ [CHR 0x27]"

fun joinValues :: "string list \<Rightarrow> string" where
  "joinValues [] = []"
| "joinValues [v] = quoted v"
| "joinValues (v # vs) = quoted v @ '' | '' @ joinValues vs"

definition ZodEnum_parse :: "ZodEnum \<Rightarrow> entry option \<Rightarrow> string parsed" where
  "ZodEnum_parse schema input =
     (case input of
        Some (Text s) \<Rightarrow>
          if s \<in> set (enum_values schema) then Valid s
          else Invalid [''Invalid enum value. Expected '' @ joinValues (enum_values schema)
                        @ '', received '' @ quoted s]
      | _ \<Rightarrow>
          Invalid [case enum_invalid_type_error schema of
                     Some msg \<Rightarrow> msg
                   | None \<Rightarrow> ''Expected '' @ joinValues (enum_values schema)
                              @ '', received '' @ received_type input])"

text \<open>
  \<^verbatim>\<open>safeParse\<close> of an object schema parses every field of the shape, in the order of the
  shape, and succeeds when no field has an issue. An issue is the name of its field and
  its message. \<^verbatim>\<open>flatten().fieldErrors\<close> gathers the messages by field.
\<close>

type_synonym issue = "string \<times> string"

datatype 'a safeParse = Success 'a | Failure "issue list"

definition field_issues :: "string \<Rightarrow> 'a parsed \<Rightarrow> issue list" where
  "field_issues key r = (case r of Valid _ \<Rightarrow> [] | Invalid msgs \<Rightarrow> map (Pair key) msgs)"

fun push_message :: "string \<Rightarrow> string \<Rightarrow> (string \<times> string list) list \<Rightarrow> (string \<times> string list) list" where
  \<comment> \<open>\<^verbatim>\<open>fieldErrors[key] = fieldErrors[key] || []; fieldErrors[key].push(msg)\<close>\<close>
  "push_message key msg [] = [(key, [msg])]"
| "push_message key msg ((k, msgs) # rest) =
     (if k = key then (k, msgs @ [msg]) # rest else (k, msgs) # push_message key msg rest)"

definition fieldErrors :: "issue list \<Rightarrow> (string \<times> string list) list" where
  "fieldErrors issues = fold (\<lambda>(key, msg) acc. push_message key msg acc) issues []"

subsection \<open>\<^verbatim>\<open>userSchema\<close>, \<^verbatim>\<open>CreateUser\<close>, \<^verbatim>\<open>UpdateUser\<close>\<close>

text \<open>
  The \<^verbatim>\<open>id\<close> of \<^verbatim>\<open>userSchema\<close> is left out by \<^verbatim>\<open>omit({ id: true })\<close> in both schemas that
  are parsed, so only the three other fields are kept.
\<close>

definition userSchema_name :: ZodString where
  "userSchema_name =
     z_nonempty ''Name cannot be empty''
       (z_min 5 ''Name must be at least 5 characters long'' z_string)"

definition userSchema_email :: ZodString where
  "userSchema_email =
     z_nonempty ''Email cannot be empty'' (z_email ''Invalid email address'' z_string)"

definition userSchema_password :: ZodString where
  "userSchema_password =
     z_nonempty ''Password cannot be empty''
       (z_min 6 ''Password must be at least 6 characters long'' z_string)"

record user_data =
  data_name :: string
  data_email :: string
  data_password :: string

definition userSchema_omit_id ::
  "env \<Rightarrow> entry option \<Rightarrow> entry option \<Rightarrow> entry option \<Rightarrow> user_data safeParse" where
  \<comment> \<open>\<^verbatim>\<open>userSchema.omit({ id: true }).safeParse({ name, email, password })\<close>\<close>
  "userSchema_omit_id env name' email' password' =
     (let n = ZodString_parse env userSchema_name name';
          e = ZodString_parse env userSchema_email email';
          p = ZodString_parse env userSchema_password password'
      in case (n, e, p) of
           (Valid vn, Valid ve, Valid vp) \<Rightarrow>
             Success \<lparr>data_name = vn, data_email = ve, data_password = vp\<rparr>
         | _ \<Rightarrow>
             Failure (field_issues ''name'' n @ field_issues ''email'' e
                      @ field_issues ''password'' p))"

definition CreateUser ::
  "env \<Rightarrow> entry option \<Rightarrow> entry option \<Rightarrow> entry option \<Rightarrow> user_data safeParse" where
  "CreateUser = userSchema_omit_id"

definition UpdateUser ::
  "env \<Rightarrow> entry option \<Rightarrow> entry option \<Rightarrow> entry option \<Rightarrow> user_data safeParse" where
  "UpdateUser = userSchema_omit_id"

subsection \<open>\<^verbatim>\<open>FormSchema\<close>, \<^verbatim>\<open>CreateInvoice\<close>, \<^verbatim>\<open>UpdateInvoice\<close>\<close>

definition FormSchema_customerId :: ZodString where
  "FormSchema_customerId = z_string_with ''Please select a customer.''"

definition FormSchema_amount :: ZodNumber where
  "FormSchema_amount =
     z_gt (number_of_int 0) ''Please enter an amount greater than $0.'' z_coerce_number"

definition FormSchema_status :: ZodEnum where
  "FormSchema_status = z_enum [''pending'', ''paid''] ''Please select an invoice status.''"

record invoice_data =
  data_customerId :: string
  data_amount :: number
  data_status :: string

definition FormSchema_omit_id_date ::
  "env \<Rightarrow> entry option \<Rightarrow> entry option \<Rightarrow> entry option \<Rightarrow> invoice_data safeParse" where
  \<comment> \<open>\<^verbatim>\<open>FormSchema.omit({ id: true, date: true }).safeParse({ customerId, amount, status })\<close>\<close>
  "FormSchema_omit_id_date env customerId amount' status' =
     (let c = ZodString_parse env FormSchema_customerId customerId;
          a = ZodNumber_parse FormSchema_amount amount';
          s = ZodEnum_parse FormSchema_status status'
      in case (c, a, s) of
           (Valid vc, Valid va, Valid vs) \<Rightarrow>
             Success \<lparr>data_customerId = vc, data_amount = va, data_status = vs\<rparr>
         | _ \<Rightarrow>
             Failure (field_issues ''customerId'' c @ field_issues ''amount'' a
                      @ field_issues ''status'' s))"

definition CreateInvoice ::
  "env \<Rightarrow> entry option \<Rightarrow> entry option \<Rightarrow> entry option \<Rightarrow> invoice_data safeParse" where
  "CreateInvoice = FormSchema_omit_id_date"

definition UpdateInvoice ::
  "env \<Rightarrow> entry option \<Rightarrow> entry option \<Rightarrow> entry option \<Rightarrow> invoice_data safeParse" where
  "UpdateInvoice = FormSchema_omit_id_date"

section \<open>The handlers\<close>

text \<open>
  Each handler is the action of its body: \<open>Return v\<close> when a \<^verbatim>\<open>return\<close> statement gives
  \<open>v\<close>, \<open>Throw e\<close> when \<open>e\<close> leaves the handler (a redirect is \<open>Throw (NextRedirect path)\<close>),
  \<open>Normal ()\<close> when the body runs to its end and the handler returns \<^verbatim>\<open>undefined\<close>.
  Console output is not kept.
\<close>

definition isEmailUnique :: "string \<Rightarrow> (nat, nat) action" where
  "isEmailUnique email' =
     andThen (select_count_users email') (\<lambda>count. return_value count)"

definition createUser :: "env \<Rightarrow> form_state \<Rightarrow> FormData \<Rightarrow> (unit, form_state) action" where
  "createUser env prevState formData =
     (case CreateUser env (formData_get formData ''name'') (formData_get formData ''email'')
             (formData_get formData ''password'') of
        Failure issues \<Rightarrow>
          return_value \<lparr>errors = Some (fieldErrors issues),
                         message = Some ''Missing Fields. Failed to Create User.''\<rparr>
      | Success validated \<Rightarrow>
          andThen
            (try_catch
               (andThen (invoke (isEmailUnique (data_email validated))) (\<lambda>emailCount.
                andThen (if 0 < emailCount then throw (Error ''Email already exists'')
                         else pure ()) (\<lambda>_.
                andThen (pure (bcrypt_hash env (data_password validated) 10)) (\<lambda>hashedPassword.
                andThen (insert_user env (data_name validated) (data_email validated)
                           hashedPassword) (\<lambda>newUser.
                pure ())))))
               (\<lambda>error. throw (Error ''Failed to create user.'')))
            (\<lambda>_. andThen (revalidatePath ''/dashboard/users'')
            (\<lambda>_. redirect ''/dashboard/users'')))"

text \<open>
  In \<^verbatim>\<open>updateUser\<close> the count is used as a condition: \<^verbatim>\<open>!(await isEmailUnique(email))\<close> holds
  when the count, a \<^verbatim>\<open>number\<close> by the declared type of \<^verbatim>\<open>isEmailUnique\<close>, is 0; \<^verbatim>\<open>&&\<close>
  calls \<^verbatim>\<open>isEmailUnique\<close> only when the email differs from the stored one.
\<close>

definition updateUser ::
  "env \<Rightarrow> string \<Rightarrow> form_state \<Rightarrow> FormData \<Rightarrow> (unit, form_state) action" where
  "updateUser env id' prevState formData =
     (case UpdateUser env (formData_get formData ''name'') (formData_get formData ''email'')
             (formData_get formData ''password'') of
        Failure issues \<Rightarrow>
          return_value \<lparr>errors = Some (fieldErrors issues),
                         message = Some ''Missing Fields. Failed to Update Invoice.''\<rparr>
      | Success validated \<Rightarrow>
          try_catch_finally
            (andThen (select_user id') (\<lambda>existingUser.
             andThen (case existingUser of
                        [] \<Rightarrow> throw (Error ''User not found'')
                      | row0 # _ \<Rightarrow> pure row0) (\<lambda>row0.
             andThen (if data_email validated \<noteq> row_email row0
                      then andThen (invoke (isEmailUnique (data_email validated)))
                             (\<lambda>count. pure (count = 0))
                      else pure False) (\<lambda>condition.
             andThen (if condition then throw (Error ''Email already exists'')
                      else pure ()) (\<lambda>_.
             andThen (pure (bcrypt_hash env (data_password validated) 10)) (\<lambda>hashedPassword.
             update_user (data_name validated) (data_email validated) hashedPassword id'))))))
            (\<lambda>error. throw (Error ''Failed to update user.''))
            (andThen (revalidatePath ''/dashboard/users'')
            (\<lambda>_. redirect ''/dashboard/users'')))"

definition deleteUser :: "string \<Rightarrow> (unit, form_state) action" where
  "deleteUser id' =
     try_catch
       (andThen (delete_user id') (\<lambda>_.
        andThen (revalidatePath ''/dashboard/users'') (\<lambda>_.
        return_value \<lparr>errors = None, message = Some ''Deleted User.''\<rparr>)))
       (\<lambda>error. throw (Error ''Failed to delete user.''))"

definition createInvoice :: "env \<Rightarrow> form_state \<Rightarrow> FormData \<Rightarrow> (unit, form_state) action" where
  "createInvoice env prevState formData =
     (case CreateInvoice env (formData_get formData ''customerId'')
             (formData_get formData ''amount'') (formData_get formData ''status'') of
        Failure issues \<Rightarrow>
          return_value \<lparr>errors = Some (fieldErrors issues),
                         message = Some ''Missing Fields. Failed to Create Invoice.''\<rparr>
      | Success validated \<Rightarrow>
          (let amountInCents = number_mul (data_amount validated) (number_of_int 100);
               date' = takeWhile (\<lambda>c. c \<noteq> CHR ''T'') (now_ISO env)
           in andThen
                (try_catch
                   (insert_invoice env (data_customerId validated) amountInCents
                      (data_status validated) date')
                   (\<lambda>error. return_value
                      \<lparr>errors = None,
                       message = Some ''Database Error: Failed to Create Invoice.''\<rparr>))
                (\<lambda>_. andThen (revalidatePath ''/dashboard/invoices'')
                (\<lambda>_. redirect ''/dashboard/invoices''))))"

definition updateInvoice ::
  "env \<Rightarrow> string \<Rightarrow> form_state \<Rightarrow> FormData \<Rightarrow> (unit, form_state) action" where
  "updateInvoice env id' prevState formData =
     (case UpdateInvoice env (formData_get formData ''customerId'')
             (formData_get formData ''amount'') (formData_get formData ''status'') of
        Failure issues \<Rightarrow>
          return_value \<lparr>errors = Some (fieldErrors issues),
                         message = Some ''Missing Fields. Failed to Update Invoice.''\<rparr>
      | Success validated \<Rightarrow>
          (let amountInCents = number_mul (data_amount validated) (number_of_int 100)
           in andThen
                (try_catch
                   (update_invoice (data_customerId validated) amountInCents
                      (data_status validated) id')
                   (\<lambda>error. return_value
                      \<lparr>errors = None,
                       message = Some ''Database Error: Failed to Update Invoice.''\<rparr>))
                (\<lambda>_. andThen (revalidatePath ''/dashboard/invoices'')
                (\<lambda>_. redirect ''/dashboard/invoices''))))"

definition deleteInvoice :: "string \<Rightarrow> (unit, form_state) action" where
  "deleteInvoice id' =
     try_catch
       (andThen (delete_invoice id') (\<lambda>_.
        andThen (revalidatePath ''/dashboard/invoices'') (\<lambda>_.
        return_value \<lparr>errors = None, message = Some ''Deleted Invoice.''\<rparr>)))
       (\<lambda>error. return_value
          \<lparr>errors = None, message = Some ''Database Error: Failed to Delete Invoice.''\<rparr>)"

text \<open>
  \<^verbatim>\<open>signIn\<close> belongs to the sign-in provider: it is a parameter, called with the provider
  name and the form.
\<close>

definition authenticate ::
  "(string \<Rightarrow> FormData \<Rightarrow> (unit, unit) action) \<Rightarrow> string option \<Rightarrow> FormData
     \<Rightarrow> (unit, string) action" where
  "authenticate signIn prevState formData =
     try_catch
       (invoke (signIn ''credentials'' formData))
       (\<lambda>error.
          case error of
            AuthError type' \<Rightarrow>
              if type' = ''CredentialsSignin'' then return_value ''Invalid credentials.''
              else return_value ''Something went wrong.''
          | _ \<Rightarrow> throw error)"

section \<open>Sample inputs\<close>

text \<open>The concrete environment, worlds and forms at which the theorems below are run.\<close>

definition sample_env :: env where
  "sample_env =
     \<lparr>email_pattern = (\<lambda>s. CHR ''@'' \<in> set s),
      bcrypt_hash = (\<lambda>password rounds. ''$2b$10$'' @ password),
      generated_id = (\<lambda>w. ''id-new''),
      now_ISO = ''2024-05-17T09:30:00.000Z''\<rparr>"

definition empty_world :: world where
  "empty_world = \<lparr>users = [], invoices = [], faults = [], issued = [], revalidated = []\<rparr>"

definition no_state :: form_state where
  "no_state = \<lparr>errors = None, message = None\<rparr>"

definition next_call_fails :: "world \<Rightarrow> bool" where
  \<comment> \<open>the store is going to fail the next statement sent to it\<close>
  "next_call_fails w = (case faults w of [] \<Rightarrow> False | failing # _ \<Rightarrow> failing)"

definition valid_user_form :: FormData where
  "valid_user_form =
     [(''name'', Text ''Grace Hopper''), (''email'', Text ''grace@example.com''),
      (''password'', Text ''s3cret-pw'')]"

definition grace :: user_row where
  "grace =
     \<lparr>row_id = ''u1'', row_name = ''Grace'', row_email = ''grace@example.com'',
      row_password = ''$2b$10$old''\<rparr>"

definition world_with_grace :: world where
  "world_with_grace = empty_world\<lparr>users := [grace]\<rparr>"

definition failing_world :: world where
  \<comment> \<open>the store fails the next statement\<close>
  "failing_world = world_with_grace\<lparr>faults := [True]\<rparr>"

definition short_name_and_password :: FormData where
  "short_name_and_password =
     [(''name'', Text ''ab''), (''email'', Text ''ada@example.com''),
      (''password'', Text ''123'')]"

definition invoice_form :: "string \<Rightarrow> string \<Rightarrow> FormData" where
  "invoice_form amount' status' =
     [(''customerId'', Text ''c-1''), (''amount'', Text amount'), (''status'', Text status')]"

section \<open>The constraints of the user fields, as the specification words them\<close>

text \<open>
  A display name has at least 5 characters and is not empty; an email is a valid address
  and is not empty; a password has at least 6 characters and is not empty. A field that is
  absent or no string satisfies none of them.
\<close>

definition name_constraint :: "entry option \<Rightarrow> bool" where
  "name_constraint v = (case v of Some (Text s) \<Rightarrow> 5 \<le> length s \<and> s \<noteq> [] | _ \<Rightarrow> False)"

definition email_constraint :: "env \<Rightarrow> entry option \<Rightarrow> bool" where
  "email_constraint env v =
     (case v of Some (Text s) \<Rightarrow> email_pattern env s \<and> s \<noteq> [] | _ \<Rightarrow> False)"

definition password_constraint :: "entry option \<Rightarrow> bool" where
  "password_constraint v = (case v of Some (Text s) \<Rightarrow> 6 \<le> length s \<and> s \<noteq> [] | _ \<Rightarrow> False)"

definition decimal_places :: "string \<Rightarrow> nat" where
  \<comment> \<open>how many characters an amount is written with after its decimal point\<close>
  "decimal_places s = length (drop 1 (dropWhile (\<lambda>c. c \<noteq> CHR ''.'') s))"

section \<open>Evaluating numbers\<close>

lemma bitlen_0: "bitlen 0 = 0"
  by (simp add: bitlen.simps)

lemma bitlen_Suc_0: "bitlen (Suc 0) = Suc 0"
  by (simp add: bitlen.simps)

lemma bitlen_1: "bitlen 1 = Suc 0"
  by (simp add: bitlen.simps)

lemma bitlen_Bit0: "bitlen (numeral (Num.Bit0 k)) = Suc (bitlen (numeral k))"
  by (subst bitlen.simps) simp

lemma bitlen_Bit1: "bitlen (numeral (Num.Bit1 k)) = Suc (bitlen (numeral k))"
  by (subst bitlen.simps) simp

lemma normalise_0: "normalise 0 e = (0, 0)"
  by (simp add: normalise.simps)

lemma normalise_Suc_0: "normalise (Suc 0) e = (Suc 0, e)"
  by (simp add: normalise.simps)

lemma normalise_1: "normalise 1 e = (1, e)"
  by (simp add: normalise.simps)

lemma normalise_Bit0: "normalise (numeral (Num.Bit0 k)) e = normalise (numeral k) (e + 1)"
  by (subst normalise.simps) simp

lemma normalise_Bit1: "normalise (numeral (Num.Bit1 k)) e = (numeral (Num.Bit1 k), e)"
  by (subst normalise.simps) simp

lemmas binary64_eval =
  round_binary64_def floor_log2_def round_half_even_def number_of_int_def Let_def
  bitlen_0 bitlen_Suc_0 bitlen_1 bitlen_Bit0 bitlen_Bit1
  normalise_0 normalise_Suc_0 normalise_1 normalise_Bit0 normalise_Bit1

lemmas StringToNumber_eval =
  StringToNumber_def trim_def is_white_space_def decimal_literal_def radix_literal_def
  is_digit_def digit_of_def nonempty_digits_def exponent_part_def scaled_decimal_def

section \<open>Statements and their completions\<close>

lemmas action_defs =
  pure_def return_value_def throw_def andThen_def try_catch_def try_catch_finally_def
  invoke_def revalidatePath_def redirect_def

lemmas store_defs =
  sql_def select_count_users_def insert_user_def select_user_def update_user_def
  delete_user_def insert_invoice_def update_invoice_def delete_invoice_def

lemma finally_redirect:
  "fst (try_catch_finally block handler (andThen (revalidatePath p) (\<lambda>_. redirect q)) w)
     = Throw (NextRedirect q)"
  by (simp add: action_defs split: prod.splits completion.splits)

lemma filter_absent: "k \<notin> f ` set xs \<Longrightarrow> filter (\<lambda>x. f x \<noteq> k) xs = xs"
  by (induction xs) auto

lemma filter_present: "k \<in> f ` set xs \<Longrightarrow> filter (\<lambda>x. f x = k) xs \<noteq> []"
  by (induction xs) auto

section \<open>Field errors\<close>

lemma push_message_keys: "fst ` set (push_message k m acc) = insert k (fst ` set acc)"
  by (induction k m acc rule: push_message.induct) (auto split: if_splits)

lemma fold_push_message_keys:
  "fst ` set (fold (\<lambda>(key, msg) acc. push_message key msg acc) issues acc)
     = fst ` set issues \<union> fst ` set acc"
proof (induction issues arbitrary: acc)
  case Nil
  then show ?case by simp
next
  case (Cons i issues)
  obtain k m where i: "i = (k, m)" by (cases i)
  show ?case
    using Cons.IH [of "push_message k m acc"] by (simp add: i push_message_keys)
qed

lemma fieldErrors_keys: "fst ` set (fieldErrors issues) = fst ` set issues"
  by (simp add: fieldErrors_def fold_push_message_keys)

lemma push_message_nonempty:
  "list_all (\<lambda>(k, msgs). msgs \<noteq> []) acc
   \<Longrightarrow> list_all (\<lambda>(k, msgs). msgs \<noteq> []) (push_message key m acc)"
  by (induction acc) auto

lemma fold_push_message_nonempty:
  "list_all (\<lambda>(k, msgs). msgs \<noteq> []) acc
   \<Longrightarrow> list_all (\<lambda>(k, msgs). msgs \<noteq> [])
         (fold (\<lambda>(key, msg) acc. push_message key msg acc) issues acc)"
proof (induction issues arbitrary: acc)
  case Nil
  then show ?case by simp
next
  case (Cons i issues)
  obtain k m where i: "i = (k, m)" by (cases i)
  show ?case
    using Cons.IH [OF push_message_nonempty [OF Cons.prems, of k m]] by (simp add: i)
qed

lemma fieldErrors_nonempty: "list_all (\<lambda>(k, msgs). msgs \<noteq> []) (fieldErrors issues)"
  unfolding fieldErrors_def by (rule fold_push_message_nonempty) simp

lemma field_issues_keys:
  "fst ` set (field_issues key r)
     = (case r of Valid _ \<Rightarrow> {} | Invalid msgs \<Rightarrow> if msgs = [] then {} else {key})"
  by (cases r) (simp_all add: field_issues_def image_image image_constant_conv)

section \<open>The user schema\<close>

lemmas user_schema_defs =
  CreateUser_def UpdateUser_def userSchema_omit_id_def userSchema_name_def
  userSchema_email_def userSchema_password_def z_string_def z_min_def z_nonempty_def
  z_email_def ZodString_parse_def

lemma ZodString_parse_Valid:
  "ZodString_parse env schema v = Valid s \<Longrightarrow> v = Some (Text s)"
  by (auto simp: ZodString_parse_def split: option.splits entry.splits list.splits)

lemma userSchema_omit_id_data:
  "userSchema_omit_id env n e p = Success validated
   \<Longrightarrow> n = Some (Text (data_name validated)) \<and> e = Some (Text (data_email validated))
       \<and> p = Some (Text (data_password validated))"
  by (cases "ZodString_parse env userSchema_name n";
      cases "ZodString_parse env userSchema_email e";
      cases "ZodString_parse env userSchema_password p")
     (auto simp: userSchema_omit_id_def dest: ZodString_parse_Valid)

lemma name_parse:
  "(\<exists>s. ZodString_parse env userSchema_name v = Valid s) = name_constraint v"
  "ZodString_parse env userSchema_name v \<noteq> Invalid []"
  by (auto simp: user_schema_defs name_constraint_def
      split: option.splits entry.splits list.splits)

lemma email_parse:
  "(\<exists>s. ZodString_parse env userSchema_email v = Valid s) = email_constraint env v"
  "ZodString_parse env userSchema_email v \<noteq> Invalid []"
  by (auto simp: user_schema_defs email_constraint_def
      split: option.splits entry.splits list.splits)

lemma password_parse:
  "(\<exists>s. ZodString_parse env userSchema_password v = Valid s) = password_constraint v"
  "ZodString_parse env userSchema_password v \<noteq> Invalid []"
  by (auto simp: user_schema_defs password_constraint_def
      split: option.splits entry.splits list.splits)

lemma userSchema_omit_id_Failure:
  "\<not> (name_constraint n \<and> email_constraint env e \<and> password_constraint p)
   \<Longrightarrow> \<exists>issues. userSchema_omit_id env n e p = Failure issues
         \<and> fst ` set issues = (if name_constraint n then {} else {''name''})
              \<union> (if email_constraint env e then {} else {''email''})
              \<union> (if password_constraint p then {} else {''password''})"
  using name_parse [of env n] email_parse [of env e] password_parse [of env p]
  apply (cases "ZodString_parse env userSchema_name n";
        cases "ZodString_parse env userSchema_email e";
        cases "ZodString_parse env userSchema_password p")
  apply (simp_all add: userSchema_omit_id_def image_Un field_issues_keys)
  done

lemma valid_user_form_parses:
  "userSchema_omit_id sample_env (formData_get valid_user_form ''name'')
     (formData_get valid_user_form ''email'') (formData_get valid_user_form ''password'')
   = Success \<lparr>data_name = ''Grace Hopper'', data_email = ''grace@example.com'',
              data_password = ''s3cret-pw''\<rparr>"
  by (simp add: user_schema_defs formData_get_def valid_user_form_def sample_env_def)

section \<open>\<^verbatim>\<open>authenticate\<close>\<close>

text \<open>
  Claim C4. When \<^verbatim>\<open>signIn\<close> throws a provider error (\<^verbatim>\<open>AuthError\<close>) whose type is
  \<^verbatim>\<open>CredentialsSignin\<close>, \<^verbatim>\<open>authenticate\<close> returns exactly \<^verbatim>\<open>Invalid credentials.\<close>; when it
  throws a provider error of any other type, exactly \<^verbatim>\<open>Something went wrong.\<close>; and an error
  that is no provider error leaves \<^verbatim>\<open>authenticate\<close> as it was thrown.
\<close>

theorem authenticate_classifies_errors:
  "(signIn ''credentials'' formData w = (Throw (AuthError ''CredentialsSignin''), w')
      \<longrightarrow> authenticate signIn prevState formData w = (Return ''Invalid credentials.'', w'))
   \<and> (t \<noteq> ''CredentialsSignin''
        \<longrightarrow> signIn ''credentials'' formData w = (Throw (AuthError t), w')
        \<longrightarrow> authenticate signIn prevState formData w = (Return ''Something went wrong.'', w'))
   \<and> ((\<forall>t'. e \<noteq> AuthError t')
        \<longrightarrow> signIn ''credentials'' formData w = (Throw e, w')
        \<longrightarrow> authenticate signIn prevState formData w = (Throw e, w'))"
  by (auto simp: authenticate_def action_defs split: exn.splits)

theorem authenticate_classifies_errors_witness:
  "authenticate (\<lambda>provider form. throw (AuthError ''CredentialsSignin'')) None [] empty_world
     = (Return ''Invalid credentials.'', empty_world)
   \<and> authenticate (\<lambda>provider form. throw (AuthError ''CallbackRouteError'')) None [] empty_world
       = (Return ''Something went wrong.'', empty_world)
   \<and> authenticate (\<lambda>provider form. throw (Error ''connect ECONNREFUSED'')) None [] empty_world
       = (Throw (Error ''connect ECONNREFUSED''), empty_world)"
  using
    authenticate_classifies_errors
      [where signIn = "\<lambda>provider form. throw (AuthError ''CredentialsSignin'')"
         and formData = "[]" and w = empty_world and w' = empty_world and prevState = None
         and t = "''CallbackRouteError''" and e = "Error ''connect ECONNREFUSED''"]
    authenticate_classifies_errors
      [where signIn = "\<lambda>provider form. throw (AuthError ''CallbackRouteError'')"
         and formData = "[]" and w = empty_world and w' = empty_world and prevState = None
         and t = "''CallbackRouteError''" and e = "Error ''connect ECONNREFUSED''"]
    authenticate_classifies_errors
      [where signIn = "\<lambda>provider form. throw (Error ''connect ECONNREFUSED'')"
         and formData = "[]" and w = empty_world and w' = empty_world and prevState = None
         and t = "''CallbackRouteError''" and e = "Error ''connect ECONNREFUSED''"]
  by (simp add: throw_def)

text \<open>
  Claim C10. When \<^verbatim>\<open>signIn\<close> completes without throwing, \<^verbatim>\<open>authenticate\<close> runs to the end
  of its body and returns no message (\<^verbatim>\<open>undefined\<close>); so whenever it returns a string,
  \<^verbatim>\<open>signIn\<close> has thrown a provider error.
\<close>

theorem authenticate_success_returns_undefined:
  "((\<forall>e. fst (signIn ''credentials'' formData w) \<noteq> Throw e)
      \<longrightarrow> authenticate signIn prevState formData w
            = (Normal (), snd (signIn ''credentials'' formData w)))
   \<and> (fst (authenticate signIn prevState formData w) = Return s
        \<longrightarrow> (\<exists>t. fst (signIn ''credentials'' formData w) = Throw (AuthError t)))"
  by (auto simp: authenticate_def action_defs
      split: exn.splits completion.splits prod.splits if_splits)

theorem authenticate_success_returns_undefined_witness:
  "authenticate (\<lambda>provider form. pure ()) None [] empty_world = (Normal (), empty_world)
   \<and> fst (authenticate (\<lambda>provider form. throw (AuthError ''CredentialsSignin'')) None []
            empty_world) = Return ''Invalid credentials.''
   \<and> (\<exists>t. fst ((throw (AuthError ''CredentialsSignin'') :: (unit, unit) action) empty_world)
             = Throw (AuthError t))"
proof -
  have completes: "\<forall>e. fst ((pure () :: (unit, unit) action) empty_world) \<noteq> Throw e"
    by (simp add: pure_def)
  have returned:
    "fst (authenticate (\<lambda>provider form. throw (AuthError ''CredentialsSignin'')) None []
            empty_world) = Return ''Invalid credentials.''"
    by (simp add: authenticate_def action_defs)
  have "authenticate (\<lambda>provider form. pure ()) None [] empty_world = (Normal (), empty_world)"
    using
      authenticate_success_returns_undefined
        [where signIn = "\<lambda>provider form. pure ()" and formData = "[]" and w = empty_world
           and prevState = None]
      completes
    by (simp add: pure_def)
  moreover have
    "\<exists>t. fst ((throw (AuthError ''CredentialsSignin'') :: (unit, unit) action) empty_world)
           = Throw (AuthError t)"
    using
      authenticate_success_returns_undefined
        [where signIn = "\<lambda>provider form. throw (AuthError ''CredentialsSignin'')"
           and formData = "[]" and w = empty_world and prevState = None
           and s = "''Invalid credentials.''"]
      returned
    by blast
  ultimately show ?thesis
    using returned by blast
qed

section \<open>The user handlers\<close>

text \<open>
  Claim C6. Whenever a user form violates one or more of the field constraints,
  validation fails, in \<^verbatim>\<open>createUser\<close> and in \<^verbatim>\<open>updateUser\<close> alike, nothing is sent to the
  store, and the field errors given back have an entry (with at least one message) for
  every violated field and none for a satisfied field: all violated fields are reported
  in one pass.
\<close>

theorem user_validation_reports_every_violated_field:
  "\<not> (name_constraint (formData_get formData ''name'')
       \<and> email_constraint env (formData_get formData ''email'')
       \<and> password_constraint (formData_get formData ''password''))
   \<longrightarrow> (\<exists>fe.
          createUser env prevState formData w
            = (Return \<lparr>errors = Some fe,
                       message = Some ''Missing Fields. Failed to Create User.''\<rparr>, w)
        \<and> updateUser env id' prevState formData w
            = (Return \<lparr>errors = Some fe,
                       message = Some ''Missing Fields. Failed to Update Invoice.''\<rparr>, w)
        \<and> ((''name'' \<in> fst ` set fe) = (\<not> name_constraint (formData_get formData ''name'')))
        \<and> ((''email'' \<in> fst ` set fe)
             = (\<not> email_constraint env (formData_get formData ''email'')))
        \<and> ((''password'' \<in> fst ` set fe)
             = (\<not> password_constraint (formData_get formData ''password'')))
        \<and> fst ` set fe \<subseteq> {''name'', ''email'', ''password''}
        \<and> list_all (\<lambda>(field, msgs). msgs \<noteq> []) fe)"
proof
  assume violated: "\<not> (name_constraint (formData_get formData ''name'')
       \<and> email_constraint env (formData_get formData ''email'')
       \<and> password_constraint (formData_get formData ''password''))"
  from userSchema_omit_id_Failure [OF this]
  obtain issues where
    failure: "userSchema_omit_id env (formData_get formData ''name'')
                (formData_get formData ''email'') (formData_get formData ''password'')
              = Failure issues"
    and keys: "fst ` set issues
        = (if name_constraint (formData_get formData ''name'') then {} else {''name''})
          \<union> (if email_constraint env (formData_get formData ''email'') then {}
             else {''email''})
          \<union> (if password_constraint (formData_get formData ''password'') then {}
             else {''password''})"
    by blast
  have "createUser env prevState formData w
          = (Return \<lparr>errors = Some (fieldErrors issues),
                     message = Some ''Missing Fields. Failed to Create User.''\<rparr>, w)"
    by (simp add: createUser_def CreateUser_def failure return_value_def)
  moreover have "updateUser env id' prevState formData w
          = (Return \<lparr>errors = Some (fieldErrors issues),
                     message = Some ''Missing Fields. Failed to Update Invoice.''\<rparr>, w)"
    by (simp add: updateUser_def UpdateUser_def failure return_value_def)
  moreover have "fst ` set (fieldErrors issues)
        = (if name_constraint (formData_get formData ''name'') then {} else {''name''})
          \<union> (if email_constraint env (formData_get formData ''email'') then {}
             else {''email''})
          \<union> (if password_constraint (formData_get formData ''password'') then {}
             else {''password''})"
    by (simp add: fieldErrors_keys keys)
  moreover note fieldErrors_nonempty [of issues]
  ultimately show "\<exists>fe.
          createUser env prevState formData w
            = (Return \<lparr>errors = Some fe,
                       message = Some ''Missing Fields. Failed to Create User.''\<rparr>, w)
        \<and> updateUser env id' prevState formData w
            = (Return \<lparr>errors = Some fe,
                       message = Some ''Missing Fields. Failed to Update Invoice.''\<rparr>, w)
        \<and> ((''name'' \<in> fst ` set fe) = (\<not> name_constraint (formData_get formData ''name'')))
        \<and> ((''email'' \<in> fst ` set fe)
             = (\<not> email_constraint env (formData_get formData ''email'')))
        \<and> ((''password'' \<in> fst ` set fe)
             = (\<not> password_constraint (formData_get formData ''password'')))
        \<and> fst ` set fe \<subseteq> {''name'', ''email'', ''password''}
        \<and> list_all (\<lambda>(field, msgs). msgs \<noteq> []) fe"
    by (intro exI [of _ "fieldErrors issues"]) (simp split: if_splits)
qed

theorem user_validation_reports_every_violated_field_witness:
  "\<not> name_constraint (formData_get short_name_and_password ''name'')
   \<and> email_constraint sample_env (formData_get short_name_and_password ''email'')
   \<and> \<not> password_constraint (formData_get short_name_and_password ''password'')
   \<and> (\<exists>fe.
          createUser sample_env no_state short_name_and_password empty_world
            = (Return \<lparr>errors = Some fe,
                       message = Some ''Missing Fields. Failed to Create User.''\<rparr>,
               empty_world)
        \<and> updateUser sample_env ''u1'' no_state short_name_and_password empty_world
            = (Return \<lparr>errors = Some fe,
                       message = Some ''Missing Fields. Failed to Update Invoice.''\<rparr>,
               empty_world)
        \<and> ''name'' \<in> fst ` set fe \<and> ''email'' \<notin> fst ` set fe
        \<and> ''password'' \<in> fst ` set fe)"
proof -
  have n: "\<not> name_constraint (formData_get short_name_and_password ''name'')"
    by (simp add: name_constraint_def formData_get_def short_name_and_password_def)
  have e: "email_constraint sample_env (formData_get short_name_and_password ''email'')"
    by (simp add: email_constraint_def formData_get_def short_name_and_password_def
        sample_env_def)
  have p: "\<not> password_constraint (formData_get short_name_and_password ''password'')"
    by (simp add: password_constraint_def formData_get_def short_name_and_password_def)
  show ?thesis
    using
      user_validation_reports_every_violated_field
        [where formData = short_name_and_password and env = sample_env and w = empty_world
           and prevState = no_state and id' = "''u1''"]
      n e p
    by blast
qed

text \<open>
  Claim C8. Whenever the form of an \<^verbatim>\<open>updateUser\<close> call fails validation, the message given
  back is the literal \<^verbatim>\<open>Missing Fields. Failed to Update Invoice.\<close>, which names the
  invoice and not the user.
\<close>

theorem updateUser_validation_failure_message:
  "UpdateUser env (formData_get formData ''name'') (formData_get formData ''email'')
     (formData_get formData ''password'') = Failure issues
   \<longrightarrow> updateUser env id' prevState formData w
       = (Return \<lparr>errors = Some (fieldErrors issues),
                  message = Some ''Missing Fields. Failed to Update Invoice.''\<rparr>, w)"
  by (simp add: updateUser_def return_value_def)

theorem updateUser_validation_failure_message_witness:
  "UpdateUser sample_env (formData_get [] ''name'') (formData_get [] ''email'')
     (formData_get [] ''password'')
     = Failure [(''name'', ''Expected string, received null''),
                (''email'', ''Expected string, received null''),
                (''password'', ''Expected string, received null'')]
   \<and> updateUser sample_env ''u1'' no_state [] world_with_grace
       = (Return \<lparr>errors = Some [(''name'', [''Expected string, received null'']),
                                 (''email'', [''Expected string, received null'']),
                                 (''password'', [''Expected string, received null''])],
                  message = Some ''Missing Fields. Failed to Update Invoice.''\<rparr>,
          world_with_grace)"
  using
    updateUser_validation_failure_message
      [where env = sample_env and formData = "[]" and id' = "''u1''" and prevState = no_state
         and w = world_with_grace
         and issues = "[(''name'', ''Expected string, received null''),
                        (''email'', ''Expected string, received null''),
                        (''password'', ''Expected string, received null'')]"]
  by (simp add: user_schema_defs formData_get_def received_type_def field_issues_def
      fieldErrors_def)

text \<open>
  Claim C3. Whenever \<^verbatim>\<open>createUser\<close> is called with an email that a row of the users table
  already has, the table is left as it was: the only statement that can reach the store is
  the count query, no row is inserted, and the caller gets a failure, never the redirect of
  a success. When the form passes validation, the failure is the thrown error
  \<^verbatim>\<open>Failed to create user.\<close>
\<close>

theorem createUser_existing_email_fails:
  "formData_get formData ''email'' = Some (Text email') \<and> email' \<in> row_email ` set (users w)
   \<longrightarrow> users (snd (createUser env prevState formData w)) = users w
       \<and> (issued (snd (createUser env prevState formData w)) = issued w
          \<or> issued (snd (createUser env prevState formData w))
              = issued w @ [SELECT_COUNT_users email'])
       \<and> (\<forall>path. fst (createUser env prevState formData w) \<noteq> Throw (NextRedirect path))
       \<and> fst (createUser env prevState formData w) \<noteq> Normal ()
       \<and> ((\<exists>validated.
              CreateUser env (formData_get formData ''name'') (formData_get formData ''email'')
                (formData_get formData ''password'') = Success validated)
           \<longrightarrow> fst (createUser env prevState formData w)
                 = Throw (Error ''Failed to create user.''))"
proof
  assume h: "formData_get formData ''email'' = Some (Text email')
             \<and> email' \<in> row_email ` set (users w)"
  let ?n = "formData_get formData ''name''" and ?p = "formData_get formData ''password''"
  show "users (snd (createUser env prevState formData w)) = users w
       \<and> (issued (snd (createUser env prevState formData w)) = issued w
          \<or> issued (snd (createUser env prevState formData w))
              = issued w @ [SELECT_COUNT_users email'])
       \<and> (\<forall>path. fst (createUser env prevState formData w) \<noteq> Throw (NextRedirect path))
       \<and> fst (createUser env prevState formData w) \<noteq> Normal ()
       \<and> ((\<exists>validated.
              CreateUser env (formData_get formData ''name'') (formData_get formData ''email'')
                (formData_get formData ''password'') = Success validated)
           \<longrightarrow> fst (createUser env prevState formData w)
                 = Throw (Error ''Failed to create user.''))"
  proof (cases "userSchema_omit_id env ?n (Some (Text email')) ?p")
    case (Failure issues)
    show ?thesis
      using h by (simp add: createUser_def CreateUser_def Failure return_value_def)
  next
    case (Success validated)
    have e: "data_email validated = email'"
      using userSchema_omit_id_data [OF Success] by simp
    have c: "filter (\<lambda>u. row_email u = email') (users w) \<noteq> []"
      using h by (simp add: filter_present)
    show ?thesis
      using h c
      by (cases "faults w")
         (auto simp: createUser_def CreateUser_def Success e isEmailUnique_def action_defs
            store_defs Let_def)
  qed
qed

theorem createUser_existing_email_fails_witness:
  "formData_get valid_user_form ''email'' = Some (Text ''grace@example.com'')
   \<and> ''grace@example.com'' \<in> row_email ` set (users world_with_grace)
   \<and> users (snd (createUser sample_env no_state valid_user_form world_with_grace))
       = users world_with_grace
   \<and> fst (createUser sample_env no_state valid_user_form world_with_grace)
       = Throw (Error ''Failed to create user.'')"
proof -
  have f: "formData_get valid_user_form ''email'' = Some (Text ''grace@example.com'')"
    by (simp add: formData_get_def valid_user_form_def)
  have u: "''grace@example.com'' \<in> row_email ` set (users world_with_grace)"
    by (simp add: world_with_grace_def grace_def)
  have v: "\<exists>validated.
             CreateUser sample_env (formData_get valid_user_form ''name'')
               (formData_get valid_user_form ''email'')
               (formData_get valid_user_form ''password'') = Success validated"
    by (simp add: CreateUser_def valid_user_form_parses)
  show ?thesis
    using
      createUser_existing_email_fails
        [where formData = valid_user_form and email' = "''grace@example.com''"
           and w = world_with_grace and env = sample_env and prevState = no_state]
      f u v
    by blast
qed

text \<open>
  Claim C1. An \<^verbatim>\<open>updateUser\<close> call whose id has no user row should tell the caller that the
  user was not found and should not redirect to the listing as after a success. Run on a
  valid form, an id that no row has and a store that works, the handler leaves by the
  redirect to \<^verbatim>\<open>/dashboard/users\<close>: the error thrown for the missing row is replaced by the
  redirect of the \<^verbatim>\<open>finally\<close> block.
\<close>

theorem updateUser_missing_id_redirects:
  "updateUser sample_env ''no-such-id'' no_state valid_user_form world_with_grace
     = (Throw (NextRedirect ''/dashboard/users''),
        world_with_grace\<lparr>issued := [SELECT_users ''no-such-id''],
                           revalidated := [''/dashboard/users'']\<rparr>)"
  by (simp add: updateUser_def UpdateUser_def valid_user_form_parses action_defs store_defs
      world_with_grace_def empty_world_def grace_def)

text \<open>
  The redirect does not depend on the input: whatever the \<^verbatim>\<open>try\<close> block does, once the
  form is valid \<^verbatim>\<open>updateUser\<close> leaves by the redirect.
\<close>

lemma updateUser_valid_form_redirects:
  "UpdateUser env (formData_get formData ''name'') (formData_get formData ''email'')
     (formData_get formData ''password'') = Success validated
   \<Longrightarrow> fst (updateUser env id' prevState formData w) = Throw (NextRedirect ''/dashboard/users'')"
  by (simp add: updateUser_def finally_redirect)

text \<open>
  Claim C5. When the store runs the statement, \<^verbatim>\<open>deleteUser\<close> and \<^verbatim>\<open>deleteInvoice\<close> called
  with an id that no row has still return their confirmation message, and the table is
  as it was.
\<close>

theorem delete_absent_id_confirms:
  "\<not> next_call_fails w \<longrightarrow>
     (id' \<notin> row_id ` set (users w) \<longrightarrow>
        fst (deleteUser id' w) = Return \<lparr>errors = None, message = Some ''Deleted User.''\<rparr>
        \<and> users (snd (deleteUser id' w)) = users w)
     \<and> (id' \<notin> inv_id ` set (invoices w) \<longrightarrow>
        fst (deleteInvoice id' w)
          = Return \<lparr>errors = None, message = Some ''Deleted Invoice.''\<rparr>
        \<and> invoices (snd (deleteInvoice id' w)) = invoices w)"
  by (auto simp: deleteUser_def deleteInvoice_def action_defs store_defs next_call_fails_def
      filter_absent Let_def split: list.splits)

theorem delete_absent_id_confirms_witness:
  "\<not> next_call_fails world_with_grace
   \<and> ''u404'' \<notin> row_id ` set (users world_with_grace)
   \<and> ''u404'' \<notin> inv_id ` set (invoices world_with_grace)
   \<and> fst (deleteUser ''u404'' world_with_grace)
       = Return \<lparr>errors = None, message = Some ''Deleted User.''\<rparr>
   \<and> users (snd (deleteUser ''u404'' world_with_grace)) = [grace]
   \<and> fst (deleteInvoice ''u404'' world_with_grace)
       = Return \<lparr>errors = None, message = Some ''Deleted Invoice.''\<rparr>
   \<and> invoices (snd (deleteInvoice ''u404'' world_with_grace)) = []"
  using delete_absent_id_confirms [where w = world_with_grace and id' = "''u404''"]
  by (simp add: next_call_fails_def world_with_grace_def empty_world_def grace_def)

section \<open>Failures of the store\<close>

text \<open>
  What each handler does when the store fails the statement it sends: \<^verbatim>\<open>createUser\<close> and
  \<^verbatim>\<open>deleteUser\<close> throw their own error, the three invoice handlers return a message.
\<close>

lemma createUser_store_failure_throws:
  "CreateUser env (formData_get formData ''name'') (formData_get formData ''email'')
     (formData_get formData ''password'') = Success validated
   \<Longrightarrow> next_call_fails w
   \<Longrightarrow> fst (createUser env prevState formData w) = Throw (Error ''Failed to create user.'')"
  by (auto simp: createUser_def isEmailUnique_def action_defs store_defs next_call_fails_def
      Let_def split: list.splits)

lemma createUser_insert_failure_throws:
  "CreateUser env (formData_get formData ''name'') (formData_get formData ''email'')
     (formData_get formData ''password'') = Success validated
   \<Longrightarrow> faults w = False # True # later
   \<Longrightarrow> fst (createUser env prevState formData w) = Throw (Error ''Failed to create user.'')"
  by (auto simp: createUser_def isEmailUnique_def action_defs store_defs Let_def)

lemma deleteUser_store_failure_throws:
  "next_call_fails w \<Longrightarrow> fst (deleteUser id' w) = Throw (Error ''Failed to delete user.'')"
  by (auto simp: deleteUser_def action_defs store_defs next_call_fails_def Let_def
      split: list.splits)

lemma createInvoice_store_failure_returns:
  "CreateInvoice env (formData_get formData ''customerId'') (formData_get formData ''amount'')
     (formData_get formData ''status'') = Success validated
   \<Longrightarrow> next_call_fails w
   \<Longrightarrow> fst (createInvoice env prevState formData w)
       = Return \<lparr>errors = None, message = Some ''Database Error: Failed to Create Invoice.''\<rparr>"
  by (auto simp: createInvoice_def action_defs store_defs next_call_fails_def Let_def
      split: list.splits)

lemma updateInvoice_store_failure_returns:
  "UpdateInvoice env (formData_get formData ''customerId'') (formData_get formData ''amount'')
     (formData_get formData ''status'') = Success validated
   \<Longrightarrow> next_call_fails w
   \<Longrightarrow> fst (updateInvoice env id' prevState formData w)
       = Return \<lparr>errors = None, message = Some ''Database Error: Failed to Update Invoice.''\<rparr>"
  by (auto simp: updateInvoice_def action_defs store_defs next_call_fails_def Let_def
      split: list.splits)

lemma deleteInvoice_store_failure_returns:
  "next_call_fails w
   \<Longrightarrow> fst (deleteInvoice id' w)
       = Return \<lparr>errors = None, message = Some ''Database Error: Failed to Delete Invoice.''\<rparr>"
  by (auto simp: deleteInvoice_def action_defs store_defs next_call_fails_def Let_def
      split: list.splits)

text \<open>
  Claim C7. On a failure of the store every user handler should leave by a thrown error
  that reaches the caller, and every invoice handler should return a message.
  \<^verbatim>\<open>updateUser\<close> does not: run on a valid form for the existing user \<open>u1\<close> with a store that
  fails the statement, it leaves by the redirect to \<^verbatim>\<open>/dashboard/users\<close>, and the error it
  throws in its \<^verbatim>\<open>catch\<close> block never reaches the caller; in the same world \<^verbatim>\<open>deleteUser\<close>
  and \<^verbatim>\<open>createUser\<close> throw their errors.
\<close>

theorem updateUser_store_failure_redirects:
  "next_call_fails failing_world
   \<and> updateUser sample_env ''u1'' no_state valid_user_form failing_world
       = (Throw (NextRedirect ''/dashboard/users''),
          failing_world\<lparr>faults := [], issued := [SELECT_users ''u1''],
                          revalidated := [''/dashboard/users'']\<rparr>)
   \<and> fst (deleteUser ''u1'' failing_world) = Throw (Error ''Failed to delete user.'')
   \<and> fst (createUser sample_env no_state valid_user_form failing_world)
       = Throw (Error ''Failed to create user.'')"
  by (simp add: updateUser_def createUser_def deleteUser_def UpdateUser_def CreateUser_def
      valid_user_form_parses isEmailUnique_def action_defs store_defs next_call_fails_def
      failing_world_def world_with_grace_def empty_world_def grace_def)

section \<open>The invoice handlers\<close>

lemmas invoice_schema_defs =
  CreateInvoice_def UpdateInvoice_def FormSchema_omit_id_date_def FormSchema_customerId_def
  FormSchema_amount_def FormSchema_status_def z_string_with_def z_coerce_number_def z_gt_def
  z_enum_def ZodString_parse_def ZodNumber_parse_def ZodEnum_parse_def

lemma ZodEnum_parse_status:
  "ZodEnum_parse FormSchema_status v = Valid s
   \<Longrightarrow> v = Some (Text s) \<and> (s = ''pending'' \<or> s = ''paid'')"
  by (auto simp: ZodEnum_parse_def FormSchema_status_def z_enum_def
      split: option.splits entry.splits if_splits)

lemma ZodEnum_parse_other_status:
  "v \<noteq> Some (Text ''pending'') \<Longrightarrow> v \<noteq> Some (Text ''paid'')
   \<Longrightarrow> \<exists>msg. ZodEnum_parse FormSchema_status v = Invalid [msg]"
  by (auto simp: ZodEnum_parse_def FormSchema_status_def z_enum_def
      split: option.splits entry.splits if_splits)

lemma ZodNumber_parse_amount:
  "ZodNumber_parse FormSchema_amount v = Valid x
   \<Longrightarrow> x = Number v \<and> number_gt x (number_of_int 0)"
  by (auto simp: ZodNumber_parse_def FormSchema_amount_def z_gt_def z_coerce_number_def Let_def
      split: if_splits list.splits)

lemma FormSchema_omit_id_date_data:
  "FormSchema_omit_id_date env c a s = Success validated
   \<Longrightarrow> c = Some (Text (data_customerId validated))
       \<and> data_amount validated = Number a
       \<and> number_gt (Number a) (number_of_int 0)
       \<and> s = Some (Text (data_status validated))
       \<and> (data_status validated = ''pending'' \<or> data_status validated = ''paid'')"
  by (cases "ZodString_parse env FormSchema_customerId c";
      cases "ZodNumber_parse FormSchema_amount a";
      cases "ZodEnum_parse FormSchema_status s")
     (auto simp: FormSchema_omit_id_date_def
        dest: ZodString_parse_Valid ZodNumber_parse_amount ZodEnum_parse_status)

lemma FormSchema_omit_id_date_other_status:
  assumes "s \<noteq> Some (Text ''pending'')" and "s \<noteq> Some (Text ''paid'')"
  shows "\<exists>issues. FormSchema_omit_id_date env c a s = Failure issues
           \<and> ''status'' \<in> fst ` set issues"
proof -
  obtain msg where "ZodEnum_parse FormSchema_status s = Invalid [msg]"
    using ZodEnum_parse_other_status [OF assms] by blast
  then show ?thesis
    by (cases "ZodString_parse env FormSchema_customerId c";
        cases "ZodNumber_parse FormSchema_amount a")
       (simp_all add: FormSchema_omit_id_date_def image_Un field_issues_keys)
qed

text \<open>
  The numbers of the claims. \<^verbatim>\<open>12.34\<close> is read as \<open>3473401212609495 * 2 ^ (- 48)\<close>: its
  significand \<open>2 * 3473401212609495\<close> has 53 bits and lies within half a unit of
  \<open>12.34 * 2 ^ 49\<close>. The exact product of that number and 100 lies within half a unit in
  the last place (\<open>2 ^ (- 43)\<close>) of 1234, so the multiplication gives 1234.
\<close>

lemma nearest_to_12_34:
  "(2::int) ^ 52 \<le> 2 * 3473401212609495 \<and> 2 * 3473401212609495 < (2::int) ^ 53
   \<and> 2 * \<bar>1234 * 2 ^ 49 - 100 * (2 * 3473401212609495)\<bar> \<le> (100::int)"
  by simp

lemma product_nearest_to_1234:
  "\<bar>3473401212609495 * 100 - 1234 * 2 ^ 48\<bar> * 2 ^ 43 \<le> (2::int) ^ 48"
  by simp

lemma Number_12_34: "Number (Some (Text ''12.34'')) = Finite 3473401212609495 (- 48)"
  by (simp add: Number_def StringToNumber_eval binary64_eval)

lemma cents_12_34:
  "number_mul (Finite 3473401212609495 (- 48)) (number_of_int 100) = Finite 617 1"
  by (simp add: binary64_eval)

lemma integer_value_1234: "integer_value (Finite 617 1) = Some 1234"
  by (simp add: integer_value_def)

lemma positive_12_34: "number_gt (Finite 3473401212609495 (- 48)) (number_of_int 0)"
  by (simp add: binary64_eval)

lemma createInvoice_invalid:
  "CreateInvoice env (formData_get formData ''customerId'') (formData_get formData ''amount'')
     (formData_get formData ''status'') = Failure issues
   \<Longrightarrow> createInvoice env prevState formData w
       = (Return \<lparr>errors = Some (fieldErrors issues),
                  message = Some ''Missing Fields. Failed to Create Invoice.''\<rparr>, w)"
  by (simp add: createInvoice_def return_value_def)

lemma createInvoice_valid:
  assumes "CreateInvoice env (formData_get formData ''customerId'')
             (formData_get formData ''amount'') (formData_get formData ''status'')
           = Success validated"
  shows "issued (snd (createInvoice env prevState formData w))
           = issued w @
               [INSERT_invoices (data_customerId validated)
                  (number_mul (data_amount validated) (number_of_int 100))
                  (data_status validated)
                  (takeWhile (\<lambda>c. c \<noteq> CHR ''T'') (now_ISO env))]"
    and "next_call_fails w
         \<Longrightarrow> fst (createInvoice env prevState formData w)
               = Return \<lparr>errors = None,
                          message = Some ''Database Error: Failed to Create Invoice.''\<rparr>
             \<and> invoices (snd (createInvoice env prevState formData w)) = invoices w"
    and "\<not> next_call_fails w
         \<Longrightarrow> fst (createInvoice env prevState formData w)
               = Throw (NextRedirect ''/dashboard/invoices'')
             \<and> (\<exists>i. invoices (snd (createInvoice env prevState formData w))
                  = invoices w @
                      [\<lparr>inv_id = i, inv_customer_id = data_customerId validated,
                        inv_amount = number_mul (data_amount validated) (number_of_int 100),
                        inv_status = data_status validated,
                        inv_date = takeWhile (\<lambda>c. c \<noteq> CHR ''T'') (now_ISO env)\<rparr>])"
  using assms
  by (cases "faults w";
      auto simp: createInvoice_def action_defs store_defs next_call_fails_def Let_def)+

text \<open>
  Claim C2. A \<^verbatim>\<open>createInvoice\<close> call whose amount field is the string \<^verbatim>\<open>12.34\<close> persists
  the amount as exactly the integer 1234: whatever row the call adds has that amount and a
  status that is \<^verbatim>\<open>pending\<close> or \<^verbatim>\<open>paid\<close>, and with a customer, one of these two statuses
  and a store that runs the statement the row is added. And whenever the status field is
  neither \<^verbatim>\<open>pending\<close> nor \<^verbatim>\<open>paid\<close>, validation fails with an error for the status and the
  world is left as it was: no statement is sent to the store.
\<close>

theorem createInvoice_cents_and_status:
  "(formData_get formData ''amount'' = Some (Text ''12.34'') \<longrightarrow>
      (invoices (snd (createInvoice env prevState formData w)) = invoices w
       \<or> (\<exists>row. invoices (snd (createInvoice env prevState formData w)) = invoices w @ [row]
               \<and> integer_value (inv_amount row) = Some 1234
               \<and> (inv_status row = ''pending'' \<or> inv_status row = ''paid'')))
      \<and> (formData_get formData ''customerId'' = Some (Text customer)
           \<and> formData_get formData ''status'' = Some (Text status')
           \<and> (status' = ''pending'' \<or> status' = ''paid'')
           \<and> \<not> next_call_fails w
          \<longrightarrow> fst (createInvoice env prevState formData w)
                = Throw (NextRedirect ''/dashboard/invoices'')
              \<and> (\<exists>row. invoices (snd (createInvoice env prevState formData w))
                          = invoices w @ [row]
                      \<and> inv_customer_id row = customer
                      \<and> integer_value (inv_amount row) = Some 1234
                      \<and> inv_status row = status')))
   \<and> (formData_get formData ''status'' \<noteq> Some (Text ''pending'')
        \<and> formData_get formData ''status'' \<noteq> Some (Text ''paid'')
       \<longrightarrow> (\<exists>fe. createInvoice env prevState formData w
                   = (Return \<lparr>errors = Some fe,
                              message = Some ''Missing Fields. Failed to Create Invoice.''\<rparr>,
                      w)
                \<and> ''status'' \<in> fst ` set fe))"
proof (intro conjI impI)
  assume a: "formData_get formData ''amount'' = Some (Text ''12.34'')"
  show "invoices (snd (createInvoice env prevState formData w)) = invoices w
       \<or> (\<exists>row. invoices (snd (createInvoice env prevState formData w)) = invoices w @ [row]
               \<and> integer_value (inv_amount row) = Some 1234
               \<and> (inv_status row = ''pending'' \<or> inv_status row = ''paid''))"
  proof (cases "CreateInvoice env (formData_get formData ''customerId'')
                  (formData_get formData ''amount'') (formData_get formData ''status'')")
    case (Failure issues)
    then show ?thesis by (simp add: createInvoice_invalid)
  next
    case (Success validated)
    note d = FormSchema_omit_id_date_data [OF Success [unfolded CreateInvoice_def]]
    have cents: "number_mul (data_amount validated) (number_of_int 100) = Finite 617 1"
      using d a by (simp add: Number_12_34 cents_12_34)
    show ?thesis
    proof (cases "next_call_fails w")
      case True
      show ?thesis
        using createInvoice_valid(2) [OF Success True, of prevState] by simp
    next
      case False
      from createInvoice_valid(3) [OF Success False, of prevState]
      obtain i where
        "invoices (snd (createInvoice env prevState formData w))
           = invoices w @
               [\<lparr>inv_id = i, inv_customer_id = data_customerId validated,
                 inv_amount = Finite 617 1, inv_status = data_status validated,
                 inv_date = takeWhile (\<lambda>c. c \<noteq> CHR ''T'') (now_ISO env)\<rparr>]"
        unfolding cents by blast
      then show ?thesis
        using d by (simp add: integer_value_1234)
    qed
  qed
next
  assume a: "formData_get formData ''amount'' = Some (Text ''12.34'')"
    and v: "formData_get formData ''customerId'' = Some (Text customer)
           \<and> formData_get formData ''status'' = Some (Text status')
           \<and> (status' = ''pending'' \<or> status' = ''paid'')
           \<and> \<not> next_call_fails w"
  have "CreateInvoice env (formData_get formData ''customerId'')
          (formData_get formData ''amount'') (formData_get formData ''status'')
        = Success \<lparr>data_customerId = customer, data_amount = Finite 3473401212609495 (- 48),
                   data_status = status'\<rparr>"
    using v Number_12_34 positive_12_34
    by (auto simp: a invoice_schema_defs Let_def)
  from createInvoice_valid(3) [OF this, of w prevState] v
  show "fst (createInvoice env prevState formData w) = Throw (NextRedirect ''/dashboard/invoices'')"
    and "\<exists>row. invoices (snd (createInvoice env prevState formData w)) = invoices w @ [row]
                      \<and> inv_customer_id row = customer
                      \<and> integer_value (inv_amount row) = Some 1234
                      \<and> inv_status row = status'"
    by (auto simp: cents_12_34 integer_value_1234)
next
  assume s: "formData_get formData ''status'' \<noteq> Some (Text ''pending'')
        \<and> formData_get formData ''status'' \<noteq> Some (Text ''paid'')"
  then obtain issues where
    f: "FormSchema_omit_id_date env (formData_get formData ''customerId'')
          (formData_get formData ''amount'') (formData_get formData ''status'') = Failure issues"
    and k: "''status'' \<in> fst ` set issues"
    using FormSchema_omit_id_date_other_status by blast
  show "\<exists>fe. createInvoice env prevState formData w
                   = (Return \<lparr>errors = Some fe,
                              message = Some ''Missing Fields. Failed to Create Invoice.''\<rparr>,
                      w)
                \<and> ''status'' \<in> fst ` set fe"
    using createInvoice_invalid [of env formData issues prevState w] f k
    by (simp add: CreateInvoice_def fieldErrors_keys)
qed


theorem createInvoice_cents_and_status_witness:
  "formData_get (invoice_form ''12.34'' ''paid'') ''amount'' = Some (Text ''12.34'')
   \<and> formData_get (invoice_form ''12.34'' ''paid'') ''customerId'' = Some (Text ''c-1'')
   \<and> formData_get (invoice_form ''12.34'' ''paid'') ''status'' = Some (Text ''paid'')
   \<and> \<not> next_call_fails empty_world
   \<and> fst (createInvoice sample_env no_state (invoice_form ''12.34'' ''paid'') empty_world)
       = Throw (NextRedirect ''/dashboard/invoices'')
   \<and> (\<exists>row. invoices (snd (createInvoice sample_env no_state (invoice_form ''12.34'' ''paid'')
                              empty_world)) = invoices empty_world @ [row]
           \<and> inv_customer_id row = ''c-1''
           \<and> integer_value (inv_amount row) = Some 1234
           \<and> inv_status row = ''paid'')
   \<and> formData_get (invoice_form ''12.34'' ''draft'') ''status'' \<noteq> Some (Text ''pending'')
   \<and> formData_get (invoice_form ''12.34'' ''draft'') ''status'' \<noteq> Some (Text ''paid'')
   \<and> (\<exists>fe. createInvoice sample_env no_state (invoice_form ''12.34'' ''draft'') empty_world
              = (Return \<lparr>errors = Some fe,
                         message = Some ''Missing Fields. Failed to Create Invoice.''\<rparr>,
                 empty_world)
           \<and> ''status'' \<in> fst ` set fe)"
proof -
  have a: "formData_get (invoice_form ''12.34'' ''paid'') ''amount'' = Some (Text ''12.34'')"
    and c: "formData_get (invoice_form ''12.34'' ''paid'') ''customerId'' = Some (Text ''c-1'')"
    and s: "formData_get (invoice_form ''12.34'' ''paid'') ''status'' = Some (Text ''paid'')"
    and d: "formData_get (invoice_form ''12.34'' ''draft'') ''status'' \<noteq> Some (Text ''pending'')"
      "formData_get (invoice_form ''12.34'' ''draft'') ''status'' \<noteq> Some (Text ''paid'')"
    by (simp_all add: formData_get_def invoice_form_def)
  have n: "\<not> next_call_fails empty_world"
    by (simp add: next_call_fails_def empty_world_def)
  show ?thesis
    using
      createInvoice_cents_and_status
        [where formData = "invoice_form ''12.34'' ''paid''" and env = sample_env
           and prevState = no_state and w = empty_world and customer = "''c-1''"
           and status' = "''paid''"]
      createInvoice_cents_and_status
        [where formData = "invoice_form ''12.34'' ''draft''" and env = sample_env
           and prevState = no_state and w = empty_world]
      a c s d n
    by simp
qed

lemma updateInvoice_valid:
  assumes "UpdateInvoice env (formData_get formData ''customerId'')
             (formData_get formData ''amount'') (formData_get formData ''status'')
           = Success validated"
  shows "issued (snd (updateInvoice env id' prevState formData w))
           = issued w @
               [UPDATE_invoices (data_customerId validated)
                  (number_mul (data_amount validated) (number_of_int 100))
                  (data_status validated) id']"
  using assms
  by (cases "faults w")
     (auto simp: updateInvoice_def action_defs store_defs Let_def)

lemma Number_12_345: "Number (Some (Text ''12.345'')) = Finite 6949617174986097 (- 49)"
  by (simp add: Number_def StringToNumber_eval binary64_eval)

lemma cents_12_345:
  "number_mul (Finite 6949617174986097 (- 49)) (number_of_int 100) = Finite 2469 (- 1)"
  by (simp add: binary64_eval)

lemma positive_12_345: "number_gt (Finite 6949617174986097 (- 49)) (number_of_int 0)"
  by (simp add: binary64_eval)

lemma Number_12_340: "Number (Some (Text ''12.340'')) = Finite 3473401212609495 (- 48)"
  by (simp add: Number_def StringToNumber_eval binary64_eval)

lemma Number_1_0000000000000000001:
  "Number (Some (Text ''1.0000000000000000001'')) = Finite 1 0"
  by (simp add: Number_def StringToNumber_eval binary64_eval)

lemma cents_1: "number_mul (Finite 1 0) (number_of_int 100) = Finite 25 2"
  by (simp add: binary64_eval)

lemma positive_1: "number_gt (Finite 1 0) (number_of_int 0)"
  by (simp add: binary64_eval)

lemma invoice_form_parses:
  "Number (Some (Text amount')) = x \<Longrightarrow> x \<noteq> NaN \<Longrightarrow> number_gt x (number_of_int 0)
   \<Longrightarrow> status' = ''pending'' \<or> status' = ''paid''
   \<Longrightarrow> FormSchema_omit_id_date env (formData_get (invoice_form amount' status') ''customerId'')
         (formData_get (invoice_form amount' status') ''amount'')
         (formData_get (invoice_form amount' status') ''status'')
       = Success \<lparr>data_customerId = ''c-1'', data_amount = x, data_status = status'\<rparr>"
  by (auto simp: invoice_schema_defs Let_def invoice_form_def formData_get_def)

text \<open>
  Claim C9, as amended. \<^verbatim>\<open>createInvoice\<close> and \<^verbatim>\<open>updateInvoice\<close> send to the store the
  product \<^verbatim>\<open>amount * 100\<close> of the coerced amount as the multiplication gives it, with no
  rounding to a whole number and no truncation; for the amount \<^verbatim>\<open>12.345\<close> that value is
  1234.5 (\<open>2469 * 2 ^ (- 1)\<close>), which is no whole number of minor units.
\<close>

theorem invoice_amount_sent_unrounded:
  "(CreateInvoice env (formData_get formData ''customerId'') (formData_get formData ''amount'')
      (formData_get formData ''status'') = Success validated
    \<longrightarrow> issued (snd (createInvoice env prevState formData w))
          = issued w @
              [INSERT_invoices (data_customerId validated)
                 (number_mul (Number (formData_get formData ''amount'')) (number_of_int 100))
                 (data_status validated)
                 (takeWhile (\<lambda>c. c \<noteq> CHR ''T'') (now_ISO env))])
   \<and> (UpdateInvoice env (formData_get formData ''customerId'')
        (formData_get formData ''amount'') (formData_get formData ''status'') = Success validated
      \<longrightarrow> issued (snd (updateInvoice env id' prevState formData w))
            = issued w @
                [UPDATE_invoices (data_customerId validated)
                   (number_mul (Number (formData_get formData ''amount'')) (number_of_int 100))
                   (data_status validated) id'])
   \<and> number_mul (Number (Some (Text ''12.345''))) (number_of_int 100) = Finite 2469 (- 1)
   \<and> integer_value (Finite 2469 (- 1)) = None"
proof (intro conjI impI)
  assume v: "CreateInvoice env (formData_get formData ''customerId'')
      (formData_get formData ''amount'') (formData_get formData ''status'') = Success validated"
  have "data_amount validated = Number (formData_get formData ''amount'')"
    using FormSchema_omit_id_date_data [OF v [unfolded CreateInvoice_def]] by simp
  then show "issued (snd (createInvoice env prevState formData w))
          = issued w @
              [INSERT_invoices (data_customerId validated)
                 (number_mul (Number (formData_get formData ''amount'')) (number_of_int 100))
                 (data_status validated)
                 (takeWhile (\<lambda>c. c \<noteq> CHR ''T'') (now_ISO env))]"
    using createInvoice_valid(1) [OF v, of prevState w] by simp
next
  assume v: "UpdateInvoice env (formData_get formData ''customerId'')
      (formData_get formData ''amount'') (formData_get formData ''status'') = Success validated"
  have "data_amount validated = Number (formData_get formData ''amount'')"
    using FormSchema_omit_id_date_data [OF v [unfolded UpdateInvoice_def]] by simp
  then show "issued (snd (updateInvoice env id' prevState formData w))
            = issued w @
                [UPDATE_invoices (data_customerId validated)
                   (number_mul (Number (formData_get formData ''amount'')) (number_of_int 100))
                   (data_status validated) id']"
    using updateInvoice_valid [OF v, of id' prevState w] by simp
next
  show "number_mul (Number (Some (Text ''12.345''))) (number_of_int 100) = Finite 2469 (- 1)"
    by (simp add: Number_12_345 cents_12_345)
next
  show "integer_value (Finite 2469 (- 1)) = None"
    by (simp add: integer_value_def)
qed

theorem invoice_amount_sent_unrounded_witness:
  "CreateInvoice sample_env (formData_get (invoice_form ''12.345'' ''pending'') ''customerId'')
     (formData_get (invoice_form ''12.345'' ''pending'') ''amount'')
     (formData_get (invoice_form ''12.345'' ''pending'') ''status'')
     = Success \<lparr>data_customerId = ''c-1'', data_amount = Finite 6949617174986097 (- 49),
                data_status = ''pending''\<rparr>
   \<and> issued (snd (createInvoice sample_env no_state (invoice_form ''12.345'' ''pending'')
                    empty_world))
       = [INSERT_invoices ''c-1'' (Finite 2469 (- 1)) ''pending'' ''2024-05-17'']
   \<and> issued (snd (updateInvoice sample_env ''i1'' no_state (invoice_form ''12.345'' ''pending'')
                    empty_world))
       = [UPDATE_invoices ''c-1'' (Finite 2469 (- 1)) ''pending'' ''i1'']"
proof -
  have a: "FormSchema_omit_id_date sample_env
             (formData_get (invoice_form ''12.345'' ''pending'') ''customerId'')
             (formData_get (invoice_form ''12.345'' ''pending'') ''amount'')
             (formData_get (invoice_form ''12.345'' ''pending'') ''status'')
           = Success \<lparr>data_customerId = ''c-1'', data_amount = Finite 6949617174986097 (- 49),
                      data_status = ''pending''\<rparr>"
    by (rule invoice_form_parses [OF Number_12_345 _ positive_12_345]) simp_all
  have f: "formData_get (invoice_form ''12.345'' ''pending'') ''amount''
             = Some (Text ''12.345'')"
    by (simp add: formData_get_def invoice_form_def)
  show ?thesis
    using
      invoice_amount_sent_unrounded
        [where env = sample_env and formData = "invoice_form ''12.345'' ''pending''"
           and prevState = no_state and w = empty_world and id' = "''i1''"
           and validated = "\<lparr>data_customerId = ''c-1'',
                                data_amount = Finite 6949617174986097 (- 49),
                                data_status = ''pending''\<rparr>"]
      a
    by (simp add: CreateInvoice_def UpdateInvoice_def f Number_12_345 cents_12_345
        sample_env_def empty_world_def)
qed

text \<open>
  Claim C9, as stated, says that every amount written with more than two decimal places
  gives a value that is no whole number. The amount \<^verbatim>\<open>12.340\<close> has three decimal places
  and both handlers send the whole number 1234 (\<open>617 * 2 ^ 1\<close>); the amount
  \<^verbatim>\<open>1.0000000000000000001\<close> has nineteen, is read as the number 1, and the value sent is
  the whole number 100 (\<open>25 * 2 ^ 2\<close>).
\<close>

theorem more_decimal_places_whole_cents:
  "2 < decimal_places ''12.340''
   \<and> issued (snd (createInvoice sample_env no_state (invoice_form ''12.340'' ''pending'')
                    empty_world))
       = [INSERT_invoices ''c-1'' (Finite 617 1) ''pending'' ''2024-05-17'']
   \<and> issued (snd (updateInvoice sample_env ''i1'' no_state (invoice_form ''12.340'' ''pending'')
                    empty_world))
       = [UPDATE_invoices ''c-1'' (Finite 617 1) ''pending'' ''i1'']
   \<and> integer_value (Finite 617 1) = Some 1234
   \<and> 2 < decimal_places ''1.0000000000000000001''
   \<and> issued (snd (createInvoice sample_env no_state
                    (invoice_form ''1.0000000000000000001'' ''pending'') empty_world))
       = [INSERT_invoices ''c-1'' (Finite 25 2) ''pending'' ''2024-05-17'']
   \<and> integer_value (Finite 25 2) = Some 100"
proof -
  have a: "FormSchema_omit_id_date sample_env
             (formData_get (invoice_form ''12.340'' ''pending'') ''customerId'')
             (formData_get (invoice_form ''12.340'' ''pending'') ''amount'')
             (formData_get (invoice_form ''12.340'' ''pending'') ''status'')
           = Success \<lparr>data_customerId = ''c-1'', data_amount = Finite 3473401212609495 (- 48),
                      data_status = ''pending''\<rparr>"
    by (rule invoice_form_parses [OF Number_12_340 _ positive_12_34]) simp_all
  have b: "FormSchema_omit_id_date sample_env
             (formData_get (invoice_form ''1.0000000000000000001'' ''pending'') ''customerId'')
             (formData_get (invoice_form ''1.0000000000000000001'' ''pending'') ''amount'')
             (formData_get (invoice_form ''1.0000000000000000001'' ''pending'') ''status'')
           = Success \<lparr>data_customerId = ''c-1'', data_amount = Finite 1 0,
                      data_status = ''pending''\<rparr>"
    by (rule invoice_form_parses [OF Number_1_0000000000000000001 _ positive_1]) simp_all
  show ?thesis
    using createInvoice_valid(1) [OF a [folded CreateInvoice_def], of no_state empty_world]
      updateInvoice_valid [OF a [folded UpdateInvoice_def], of "''i1''" no_state empty_world]
      createInvoice_valid(1) [OF b [folded CreateInvoice_def], of no_state empty_world]
    by (simp add: cents_12_34 cents_1 integer_value_def decimal_places_def sample_env_def
        empty_world_def)
qed

end
